theory Spec2Isabelle
  imports Main "HOL-Library.Signed_Division"
begin

section \<open>JavaScript strings and numbers\<close>

text \<open>
  A JavaScript string is a sequence of UTF-16 code units. The model uses \<^typ>\<open>string\<close>:
  one \<^typ>\<open>char\<close> per code unit, code units below 256. The number type is modelled by
  \<^typ>\<open>int\<close> where the code only ever holds integers, and by \<^typ>\<open>int option\<close> where
  \<open>NaN\<close> can arise (\<open>None\<close> is \<open>NaN\<close>).
\<close>

type_synonym jsnum = "int option"

definition code_of :: "char \<Rightarrow> int" where
  \<comment> \<open>\<open>c.charCodeAt(0)\<close>\<close>
  "code_of c = int (of_char c)"

definition is_digit :: "char \<Rightarrow> bool" where
  \<comment> \<open>\<open>/\d/.test(c)\<close> on a one-character string: the ASCII digits\<close>
  "is_digit c = (48 \<le> code_of c \<and> code_of c \<le> 57)"

definition is_upper :: "char \<Rightarrow> bool" where
  \<comment> \<open>the character class \<open>[A-Z]\<close>\<close>
  "is_upper c = (65 \<le> code_of c \<and> code_of c \<le> 90)"

definition is_lower :: "char \<Rightarrow> bool" where
  \<comment> \<open>the character class \<open>[a-z]\<close>\<close>
  "is_lower c = (97 \<le> code_of c \<and> code_of c \<le> 122)"

definition is_js_space :: "char \<Rightarrow> bool" where
  \<comment> \<open>white space and line terminators of ECMAScript among the code units below 256:
      TAB, LF, VT, FF, CR, SP, NBSP\<close>
  "is_js_space c = (code_of c \<in> {9, 10, 11, 12, 13, 32, 160})"

definition trim :: "string \<Rightarrow> string" where
  \<comment> \<open>\<open>s.trim()\<close>\<close>
  "trim s = rev (dropWhile is_js_space (rev (dropWhile is_js_space s)))"

definition substring :: "string \<Rightarrow> nat \<Rightarrow> nat \<Rightarrow> string" where
  \<comment> \<open>\<open>s.substring(a, b)\<close> for \<open>a \<le> b\<close> (every call of the source): both ends are clamped
      to the length, as \<open>take\<close> and \<open>drop\<close> do\<close>
  "substring s a b = take (b - a) (drop a s)"

definition substring_from :: "string \<Rightarrow> nat \<Rightarrow> string" where
  \<comment> \<open>\<open>s.substring(a)\<close>\<close>
  "substring_from s a = drop a s"

definition strip_fill :: "string \<Rightarrow> string" where
  \<comment> \<open>\<open>s.replace(/<+$/, '')\<close>: the trailing run of \<open><\<close> is removed\<close>
  "strip_fill s = rev (dropWhile (\<lambda>c. c = CHR ''<'') (rev s))"

definition fill_to_space :: "string \<Rightarrow> string" where
  \<comment> \<open>\<open>s.replace(/</g, ' ')\<close>\<close>
  "fill_to_space s = map (\<lambda>c. if c = CHR ''<'' then CHR '' '' else c) s"

fun split_on :: "char \<Rightarrow> string \<Rightarrow> string \<Rightarrow> string list" where
  \<comment> \<open>\<open>s.split(sep)\<close> for the two-character separator \<open>[k, k]\<close>, scanning from the left;
      the first argument after \<open>k\<close> is the piece read so far, reversed\<close>
  "split_on k cur [] = [rev cur]"
| "split_on k cur [c] = [rev (c # cur)]"
| "split_on k cur (c # d # rest) =
     (if c = k \<and> d = k then rev cur # split_on k [] rest
      else split_on k (c # cur) (d # rest))"

definition split_ll :: "string \<Rightarrow> string list" where
  \<comment> \<open>\<open>s.split('<<')\<close>\<close>
  "split_ll s = split_on (CHR ''<'') [] s"

fun split_char :: "char \<Rightarrow> string \<Rightarrow> string \<Rightarrow> string list" where
  \<comment> \<open>\<open>s.split(k)\<close> for a one-character separator\<close>
  "split_char k cur [] = [rev cur]"
| "split_char k cur (c # rest) =
     (if c = k then rev cur # split_char k [] rest else split_char k (c # cur) rest)"

definition digit_val :: "char \<Rightarrow> int" where
  \<comment> \<open>the value of a digit of radix up to 16; \<open>-1\<close> for any other character\<close>
  "digit_val c =
     (if is_digit c then code_of c - 48
      else if 97 \<le> code_of c \<and> code_of c \<le> 102 then code_of c - 87
      else if 65 \<le> code_of c \<and> code_of c \<le> 70 then code_of c - 55
      else -1)"

fun radix_digits :: "int \<Rightarrow> string \<Rightarrow> int list" where
  \<comment> \<open>the values of the longest prefix of digits of the radix\<close>
  "radix_digits r [] = []"
| "radix_digits r (c # cs) =
     (if 0 \<le> digit_val c \<and> digit_val c < r then digit_val c # radix_digits r cs else [])"

definition radix_value :: "int \<Rightarrow> int list \<Rightarrow> int" where
  "radix_value r ds = foldl (\<lambda>acc d. acc * r + d) 0 ds"

definition parseInt_unsigned :: "string \<Rightarrow> jsnum" where
  \<comment> \<open>steps 8 to 15 of \<open>parseInt\<close> with no radix argument: a prefix \<open>0x\<close> or \<open>0X\<close> selects
      radix 16, and a string with no digit gives \<open>NaN\<close>\<close>
  "parseInt_unsigned s =
     (let hex = (case s of a # b # _ \<Rightarrow> a = CHR ''0'' \<and> (b = CHR ''x'' \<or> b = CHR ''X'') | _ \<Rightarrow> False);
          r = (if hex then 16 else 10);
          ds = radix_digits r (if hex then drop 2 s else s)
      in if ds = [] then None else Some (radix_value r ds))"

definition parseInt :: "string \<Rightarrow> jsnum" where
  \<comment> \<open>\<open>parseInt(s)\<close>: leading white space is skipped, one sign is read, then the digits\<close>
  "parseInt s =
     (case dropWhile is_js_space s of
        [] \<Rightarrow> None
      | c # cs \<Rightarrow>
          if c = CHR ''-'' then map_option uminus (parseInt_unsigned cs)
          else if c = CHR ''+'' then parseInt_unsigned cs
          else parseInt_unsigned (c # cs))"

function show_nat :: "nat \<Rightarrow> string" where
  \<comment> \<open>the decimal digits of a natural number\<close>
  "show_nat n =
     (if n < 10 then [''0123456789'' ! n]
      else show_nat (n div 10) @ [''0123456789'' ! (n mod 10)])"
  by pat_completeness auto
termination
  by (relation "measure id") auto

declare show_nat.simps [simp del]

definition max_safe_integer :: int where
  \<comment> \<open>\<open>Number.MAX_SAFE_INTEGER\<close>, that is \<open>2^53 - 1\<close>\<close>
  "max_safe_integer = 9007199254740991"

definition show_int :: "int \<Rightarrow> string" where
  \<comment> \<open>the decimal digits of an integer, with its sign. This is the string that a template
      literal gives for a number that is a safe integer (of magnitude up to
      \<open>max_safe_integer\<close>). Beyond the safe integers JavaScript rounds the digits, and from
      \<open>10^21\<close> it prints an exponent; the model does not follow it there, and no theorem
      relies on the digits of such a number.\<close>
  "show_int k = (if k < 0 then CHR ''-'' # show_nat (nat (- k)) else show_nat (nat k))"

definition show_num :: "jsnum \<Rightarrow> string" where
  "show_num x = (case x of None \<Rightarrow> ''NaN'' | Some k \<Rightarrow> show_int k)"

section \<open>The data model (\<open>types/document\<close>)\<close>

text \<open>
  Field names are the source's, with a prefix where two interfaces share a name:
  \<open>f_\<close> for \<open>ExtractedField\<close>, \<open>mrz_\<close> for \<open>MRZData\<close>, \<open>e_\<close> for \<open>EligibilityResult\<close>,
  \<open>a_\<close> for \<open>ApplicantData\<close>.
\<close>

record ExtractedField =
  f_value :: string
  f_confidence :: int

record MRZData =
  mrz_documentType :: ExtractedField
  mrz_issuingCountry :: ExtractedField
  mrz_lastName :: ExtractedField
  mrz_firstName :: ExtractedField
  mrz_documentNumber :: ExtractedField
  mrz_nationality :: ExtractedField
  mrz_dateOfBirth :: ExtractedField
  mrz_sex :: ExtractedField
  mrz_expiryDate :: ExtractedField
  mrz_personalNumber :: ExtractedField
  mrz_checksumValid :: bool

section \<open>The MRZ decoder (\<open>lib/mrz-parser\<close>)\<close>

definition weights :: "int list" where
  "weights = [7, 3, 1]"

definition char_value :: "char \<Rightarrow> int" where
  \<comment> \<open>the three branches of the loop body of \<open>calculateCheckDigit\<close>; \<open>parseInt\<close> of a
      single digit is its value and never \<open>NaN\<close>\<close>
  "char_value c =
     (if c = CHR ''<'' then 0
      else if is_digit c then (case parseInt [c] of Some v \<Rightarrow> v | None \<Rightarrow> 0)
      else code_of c - 55)"

fun check_loop :: "string \<Rightarrow> nat \<Rightarrow> int \<Rightarrow> int" where
  \<comment> \<open>the \<open>for\<close> loop: the characters still to read, the index \<open>i\<close> and \<open>sum\<close>\<close>
  "check_loop [] i sum_acc = sum_acc"
| "check_loop (c # cs) i sum_acc =
     check_loop cs (i + 1) (sum_acc + char_value c * weights ! (i mod 3))"

definition calculateCheckDigit :: "string \<Rightarrow> int" where
  \<comment> \<open>\<open>%\<close> of JavaScript truncates: the remainder has the sign of the sum\<close>
  "calculateCheckDigit input = check_loop input 0 0 smod 10"

definition validateCheckDigit :: "string \<Rightarrow> string \<Rightarrow> bool" where
  \<comment> \<open>\<open>===\<close> with \<open>NaN\<close> is false\<close>
  "validateCheckDigit data checkDigit = (parseInt checkDigit = Some (calculateCheckDigit data))"

definition parseDate :: "string \<Rightarrow> string" where
  \<comment> \<open>\<open>NaN <= 40\<close> is false and \<open>1900 + NaN\<close> is \<open>NaN\<close>\<close>
  "parseDate dateStr =
     (if length dateStr \<noteq> 6 then ''''
      else
        let year = parseInt (substring dateStr 0 2);
            month = substring dateStr 2 4;
            day = substring dateStr 4 6;
            fullYear = (case year of None \<Rightarrow> None
                        | Some y \<Rightarrow> if y \<le> 40 then Some (2000 + y) else Some (1900 + y))
        in show_num fullYear @ ''-'' @ month @ ''-'' @ day)"

definition name_half :: "string \<Rightarrow> string" where
  \<comment> \<open>\<open>.replace(/</g, ' ').trim()\<close>\<close>
  "name_half s = trim (fill_to_space s)"

definition first_name_of :: "string list \<Rightarrow> string" where
  \<comment> \<open>\<open>namePart[1]?.replace(/</g, ' ').trim() || ''\<close>\<close>
  "first_name_of namePart = (case namePart of _ # p # _ \<Rightarrow> name_half p | _ \<Rightarrow> '''')"

definition last_name_of :: "string list \<Rightarrow> string" where
  \<comment> \<open>\<open>namePart[0].replace(/</g, ' ').trim()\<close>; \<open>split\<close> never returns an empty array\<close>
  "last_name_of namePart = (case namePart of p # _ \<Rightarrow> name_half p | [] \<Rightarrow> '''')"

definition parseTD3 :: "string \<Rightarrow> string \<Rightarrow> MRZData" where
  "parseTD3 line1 line2 =
     (let documentType = strip_fill (substring line1 0 2);
          issuingCountry = strip_fill (substring line1 2 5);
          namePart = split_ll (substring_from line1 5);
          lastName = last_name_of namePart;
          firstName = first_name_of namePart;
          documentNumber = strip_fill (substring line2 0 9);
          documentNumberCheck = substring line2 9 10;
          nationality = strip_fill (substring line2 10 13);
          dob = substring line2 13 19;
          dobCheck = substring line2 19 20;
          sex = substring line2 20 21;
          expiry = substring line2 21 27;
          expiryCheck = substring line2 27 28;
          personalNumber = strip_fill (substring line2 28 42);
          checksumValid =
            (validateCheckDigit documentNumber documentNumberCheck \<and>
             validateCheckDigit dob dobCheck \<and>
             validateCheckDigit expiry expiryCheck);
          confidence = (if checksumValid then 95 else 70)
      in \<lparr> mrz_documentType = \<lparr>f_value = documentType, f_confidence = confidence\<rparr>,
           mrz_issuingCountry = \<lparr>f_value = issuingCountry, f_confidence = confidence\<rparr>,
           mrz_lastName = \<lparr>f_value = lastName, f_confidence = confidence\<rparr>,
           mrz_firstName = \<lparr>f_value = firstName, f_confidence = confidence\<rparr>,
           mrz_documentNumber = \<lparr>f_value = documentNumber, f_confidence = confidence\<rparr>,
           mrz_nationality = \<lparr>f_value = nationality, f_confidence = confidence\<rparr>,
           mrz_dateOfBirth = \<lparr>f_value = parseDate dob, f_confidence = confidence\<rparr>,
           mrz_sex = \<lparr>f_value = sex, f_confidence = confidence\<rparr>,
           mrz_expiryDate = \<lparr>f_value = parseDate expiry, f_confidence = confidence\<rparr>,
           mrz_personalNumber =
             \<lparr>f_value = personalNumber,
              f_confidence = (if personalNumber \<noteq> [] then confidence else 0)\<rparr>,
           mrz_checksumValid = checksumValid \<rparr>)"

definition parseTD1 :: "string \<Rightarrow> string \<Rightarrow> string \<Rightarrow> MRZData" where
  "parseTD1 line1 line2 line3 =
     (let documentType = strip_fill (substring line1 0 2);
          issuingCountry = strip_fill (substring line1 2 5);
          documentNumber = strip_fill (substring line1 5 14);
          documentNumberCheck = substring line1 14 15;
          dob = substring line2 0 6;
          dobCheck = substring line2 6 7;
          sex = substring line2 7 8;
          expiry = substring line2 8 14;
          expiryCheck = substring line2 14 15;
          nationality = strip_fill (substring line2 15 18);
          namePart = split_ll line3;
          lastName = last_name_of namePart;
          firstName = first_name_of namePart;
          checksumValid =
            (validateCheckDigit documentNumber documentNumberCheck \<and>
             validateCheckDigit dob dobCheck \<and>
             validateCheckDigit expiry expiryCheck);
          confidence = (if checksumValid then 95 else 70)
      in \<lparr> mrz_documentType = \<lparr>f_value = documentType, f_confidence = confidence\<rparr>,
           mrz_issuingCountry = \<lparr>f_value = issuingCountry, f_confidence = confidence\<rparr>,
           mrz_lastName = \<lparr>f_value = lastName, f_confidence = confidence\<rparr>,
           mrz_firstName = \<lparr>f_value = firstName, f_confidence = confidence\<rparr>,
           mrz_documentNumber = \<lparr>f_value = documentNumber, f_confidence = confidence\<rparr>,
           mrz_nationality = \<lparr>f_value = nationality, f_confidence = confidence\<rparr>,
           mrz_dateOfBirth = \<lparr>f_value = parseDate dob, f_confidence = confidence\<rparr>,
           mrz_sex = \<lparr>f_value = sex, f_confidence = confidence\<rparr>,
           mrz_expiryDate = \<lparr>f_value = parseDate expiry, f_confidence = confidence\<rparr>,
           mrz_personalNumber = \<lparr>f_value = '''', f_confidence = 0\<rparr>,
           mrz_checksumValid = checksumValid \<rparr>)"

definition parseMRZ :: "string list \<Rightarrow> MRZData option" where
  \<comment> \<open>\<open>null\<close> is \<open>None\<close>. The lines are read by index only after the length test, and no
      operation of the decoder throws on strings, so the function has no error result.\<close>
  "parseMRZ mrzLines =
     (if length mrzLines < 2 then None
      else
        let line1 = mrzLines ! 0; line2 = mrzLines ! 1
        in if length line1 = 44 \<and> length line2 = 44 then Some (parseTD3 line1 line2)
           else if length mrzLines = 3 \<and> length line1 = 30
             then Some (parseTD1 (mrzLines ! 0) (mrzLines ! 1) (mrzLines ! 2))
           else None)"

type_synonym regexp = "string \<Rightarrow> string option list option"

text \<open>
  A regular expression is taken by what \<open>text.match(pattern)\<close> returns for it: \<open>None\<close> for
  \<open>null\<close>, or the match array, an entry being \<open>None\<close> where the array holds \<open>undefined\<close>.
\<close>

definition match_group1 :: "string option list \<Rightarrow> string option" where
  \<comment> \<open>\<open>match[1]\<close>, \<open>undefined\<close> beyond the end of the array\<close>
  "match_group1 m = (if 1 < length m then m ! 1 else None)"

fun extractFieldFromText :: "string \<Rightarrow> regexp list \<Rightarrow> ExtractedField" where
  \<comment> \<open>\<open>match && match[1]\<close> is truthy for a non-empty string only\<close>
  "extractFieldFromText text [] = \<lparr>f_value = '''', f_confidence = 0\<rparr>"
| "extractFieldFromText text (pattern # patterns) =
     (case pattern text of
        None \<Rightarrow> extractFieldFromText text patterns
      | Some m \<Rightarrow>
          (case match_group1 m of
             None \<Rightarrow> extractFieldFromText text patterns
           | Some g \<Rightarrow>
               if g \<noteq> [] then \<lparr>f_value = trim g, f_confidence = 75\<rparr>
               else extractFieldFromText text patterns))"

section \<open>The line filter (\<open>lib/ocr\<close>)\<close>

definition is_mrz_char :: "char \<Rightarrow> bool" where
  \<comment> \<open>the character class \<open>[A-Z0-9<]\<close>\<close>
  "is_mrz_char c = (is_upper c \<or> is_digit c \<or> c = CHR ''<'')"

definition mrzPattern :: "string \<Rightarrow> bool" where
  \<comment> \<open>\<open>/^[A-Z0-9<]{30,}$/.test(s)\<close>\<close>
  "mrzPattern s = (30 \<le> length s \<and> list_all is_mrz_char s)"

fun extractMRZ_loop :: "string list \<Rightarrow> string list" where
  "extractMRZ_loop [] = []"
| "extractMRZ_loop (line # lines) =
     (let cleaned = filter is_mrz_char (trim line)
      in if mrzPattern cleaned \<and> 30 \<le> length cleaned then cleaned # extractMRZ_loop lines
         else extractMRZ_loop lines)"

definition extractMRZ :: "string \<Rightarrow> string list" where
  "extractMRZ text = extractMRZ_loop (split_char (CHR 0x0A) [] text)"

section \<open>More of the data model\<close>

record ExtractedDocument =
  documentType :: ExtractedField
  documentNumber :: ExtractedField
  issuingCountry :: ExtractedField
  firstName :: ExtractedField
  lastName :: ExtractedField
  dateOfBirth :: ExtractedField
  nationality :: ExtractedField
  sex :: ExtractedField
  issueDate :: ExtractedField
  expiryDate :: ExtractedField
  placeOfBirth :: "ExtractedField option"
  mrzData :: "MRZData option"

datatype check_status = Pass | Fail | Warning

record ValidationCheck =
  field :: string
  status :: check_status
  message :: string
  confidence :: int

record ApplicantData =
  name :: string
  a_dateOfBirth :: string
  passportNumber :: string
  a_nationality :: string
  visaType :: string

text \<open>
  The optional members of the policy are \<open>None\<close> when absent. The numbers of a policy and
  the confidences are integers in the model. Where a message prints one of them, the
  digits are those of \<open>show_int\<close>, which are the digits of JavaScript for safe integers.
\<close>

record EligibilityPolicy =
  minPassportValidity :: int
  allowedNationalities :: "string list option"
  blockedNationalities :: "string list option"
  minAge :: "int option"
  maxAge :: "int option"
  requireBiometric :: "bool option"

record EligibilityResult =
  eligible :: bool
  reason :: string
  e_confidence :: int

section \<open>What the engine takes from outside\<close>

text \<open>
  The validator imports \<open>parseISO\<close>, \<open>isBefore\<close>, \<open>differenceInMonths\<close> and
  \<open>differenceInYears\<close> from the package \<open>date-fns\<close> and reads the clock with \<open>new Date()\<close>.
  None of this is code of the repository, so the engine is modelled over any such library:
  \<open>'d\<close> is the type of \<open>Date\<close> objects (an \<open>Invalid Date\<close> is one of them), and
  \<open>parseISO\<close>, the first call of every \<open>try\<close> block, may throw: \<open>Inl Thrown\<close> takes the
  block to its \<open>catch\<close> clause before anything is pushed. The other calls take dates and
  return a truth value or a number, which is \<open>NaN\<close> in \<open>date-fns\<close> when a date is invalid.
  One run of a function reads the clock once in the model: \<open>now\<close> is the value of every
  \<open>new Date()\<close> of the run.

  The similarity of two names is a double. Of the quotient \<open>matches / longer.length\<close> the
  engine uses the test \<open>> 0.8\<close> and \<open>Math.round(\<dots> * 100)\<close>; both are taken from the host
  too, as functions of the two integers, so that no rounding of doubles is assumed.
\<close>

datatype thrown = Thrown

record 'd host =
  parseISO :: "string \<Rightarrow> thrown + 'd"
  now :: 'd
  isBefore :: "'d \<Rightarrow> 'd \<Rightarrow> bool"
  differenceInMonths :: "'d \<Rightarrow> 'd \<Rightarrow> jsnum"
  differenceInYears :: "'d \<Rightarrow> 'd \<Rightarrow> jsnum"
  quotient_gt_0_8 :: "nat \<Rightarrow> nat \<Rightarrow> bool"
  quotient_percent :: "nat \<Rightarrow> nat \<Rightarrow> int"

definition num_lt :: "jsnum \<Rightarrow> jsnum \<Rightarrow> bool" where
  \<comment> \<open>\<open>x < y\<close> on numbers: false when either is \<open>NaN\<close>\<close>
  "num_lt x y = (case (x, y) of (Some a, Some b) \<Rightarrow> a < b | _ \<Rightarrow> False)"

definition num_gt :: "jsnum \<Rightarrow> jsnum \<Rightarrow> bool" where
  "num_gt x y = num_lt y x"

section \<open>The validation engine (\<open>lib/validator\<close>)\<close>

datatype similarity = Sim_1_0 | Sim_0_9 | Sim_quotient nat nat

definition to_lower :: "char \<Rightarrow> char" where
  \<comment> \<open>\<open>toLowerCase\<close> on one code unit below 256: the ASCII capitals and the capitals of
      Latin-1 (192 to 222 but for the multiplication sign)\<close>
  "to_lower c =
     (if is_upper c \<or> (192 \<le> code_of c \<and> code_of c \<le> 222 \<and> code_of c \<noteq> 215)
      then char_of (nat (code_of c + 32)) else c)"

definition normalize :: "string \<Rightarrow> string" where
  \<comment> \<open>\<open>s.toLowerCase().replace(/[^a-z]/g, '')\<close>\<close>
  "normalize s = filter is_lower (map to_lower s)"

fun starts_with :: "string \<Rightarrow> string \<Rightarrow> bool" where
  "starts_with s [] = True"
| "starts_with [] (c # cs) = False"
| "starts_with (d # ds) (c # cs) = (d = c \<and> starts_with ds cs)"

fun includes_str :: "string \<Rightarrow> string \<Rightarrow> bool" where
  \<comment> \<open>\<open>s.includes(t)\<close>\<close>
  "includes_str [] t = (t = [])"
| "includes_str (d # ds) t = (starts_with (d # ds) t \<or> includes_str ds t)"

fun count_matches :: "string \<Rightarrow> string \<Rightarrow> nat" where
  \<comment> \<open>the loop over \<open>i < shorter.length\<close>, which counts the positions that agree\<close>
  "count_matches (a # longer) (b # shorter) =
     (if a = b then 1 else 0) + count_matches longer shorter"
| "count_matches longer shorter = 0"

definition compareStrings :: "string \<Rightarrow> string \<Rightarrow> similarity" where
  "compareStrings a b =
     (let str1 = normalize a; str2 = normalize b
      in if str1 = str2 then Sim_1_0
         else
           let longer = (if length str1 > length str2 then str1 else str2);
               shorter = (if length str1 > length str2 then str2 else str1)
           in if includes_str longer shorter then Sim_0_9
              else Sim_quotient (count_matches longer shorter) (length longer))"

definition similarity_gt_0_8 :: "'d host \<Rightarrow> similarity \<Rightarrow> bool" where
  \<comment> \<open>\<open>similarity > 0.8\<close>\<close>
  "similarity_gt_0_8 H x =
     (case x of Sim_1_0 \<Rightarrow> True | Sim_0_9 \<Rightarrow> True | Sim_quotient m n \<Rightarrow> quotient_gt_0_8 H m n)"

definition similarity_percent :: "'d host \<Rightarrow> similarity \<Rightarrow> int" where
  \<comment> \<open>\<open>Math.round(similarity * 100)\<close>; \<open>0.9 * 100\<close> is \<open>90.00000000000001\<close>\<close>
  "similarity_percent H x =
     (case x of Sim_1_0 \<Rightarrow> 100 | Sim_0_9 \<Rightarrow> 90 | Sim_quotient m n \<Rightarrow> quotient_percent H m n)"

definition validateMRZConsistency :: "'d host \<Rightarrow> ExtractedDocument \<Rightarrow> ValidationCheck list" where
  "validateMRZConsistency H doc =
     (case mrzData doc of
        None \<Rightarrow> []
      | Some mrz \<Rightarrow>
          [\<lparr>field = ''mrzChecksum'',
            status = (if mrz_checksumValid mrz then Pass else Fail),
            message = (if mrz_checksumValid mrz then ''MRZ checksums valid''
                       else ''MRZ checksums failed''),
            confidence = (if mrz_checksumValid mrz then 95 else 60)\<rparr>]
          @ (if f_value (documentNumber doc) \<noteq> [] \<and> f_value (mrz_documentNumber mrz) \<noteq> []
             then
               let match = (f_value (documentNumber doc) = f_value (mrz_documentNumber mrz))
               in [\<lparr>field = ''documentNumberMatch'',
                    status = (if match then Pass else Fail),
                    message = (if match then ''Document number matches MRZ''
                               else ''Document number does not match MRZ''),
                    confidence = 90\<rparr>]
             else [])
          @ (if f_value (lastName doc) \<noteq> [] \<and> f_value (mrz_lastName mrz) \<noteq> []
             then
               let similarity = compareStrings (f_value (lastName doc)) (f_value (mrz_lastName mrz))
               in [\<lparr>field = ''nameMatch'',
                    status = (if similarity_gt_0_8 H similarity then Pass else Warning),
                    message = (if similarity_gt_0_8 H similarity then ''Names match MRZ''
                               else ''Name mismatch with MRZ''),
                    confidence = similarity_percent H similarity\<rparr>]
             else []))"

text \<open>
  \<open>validateDocument\<close> pushes onto one array, block after block. The model has one function
  for each block, which returns what the block pushes, and appends them in the order of
  the source.
\<close>

definition documentNumberChecks :: "ExtractedDocument \<Rightarrow> ValidationCheck list" where
  \<comment> \<open>\<open>/^[A-Z0-9]{6,12}$/.test(doc.documentNumber.value)\<close>\<close>
  "documentNumberChecks doc =
     (if f_value (documentNumber doc) \<noteq> [] then
        let v = f_value (documentNumber doc);
            isValid = (6 \<le> length v \<and> length v \<le> 12 \<and> list_all (\<lambda>c. is_upper c \<or> is_digit c) v)
        in [\<lparr>field = ''documentNumber'',
             status = (if isValid then Pass else Fail),
             message = (if isValid then ''Document number format valid''
                        else ''Invalid document number format''),
             confidence = f_confidence (documentNumber doc)\<rparr>]
      else [])"

definition expiryDateChecks :: "'d host \<Rightarrow> ExtractedDocument \<Rightarrow> ValidationCheck list" where
  "expiryDateChecks H doc =
     (if f_value (expiryDate doc) \<noteq> [] then
        (case parseISO H (f_value (expiryDate doc)) of
           Inl e \<Rightarrow>
             [\<lparr>field = ''expiryDate'', status = Fail,
               message = ''Invalid expiry date format'', confidence = 50\<rparr>]
         | Inr expiry \<Rightarrow>
             let isExpired = isBefore H expiry (now H);
                 monthsUntilExpiry = differenceInMonths H expiry (now H)
             in [\<lparr>field = ''expiryDate'',
                  status = (if isExpired then Fail else Pass),
                  message = (if isExpired then ''Document has expired'' else ''Document is valid''),
                  confidence = f_confidence (expiryDate doc)\<rparr>]
                @ (if \<not> isExpired \<and> num_lt monthsUntilExpiry (Some 6)
                   then [\<lparr>field = ''expiryDate'', status = Warning,
                          message = ''Document expires in '' @ show_num monthsUntilExpiry @ '' months'',
                          confidence = f_confidence (expiryDate doc)\<rparr>]
                   else []))
      else [])"

definition dateOfBirthChecks :: "'d host \<Rightarrow> ExtractedDocument \<Rightarrow> ValidationCheck list" where
  "dateOfBirthChecks H doc =
     (if f_value (dateOfBirth doc) \<noteq> [] then
        (case parseISO H (f_value (dateOfBirth doc)) of
           Inl e \<Rightarrow>
             [\<lparr>field = ''dateOfBirth'', status = Fail,
               message = ''Invalid date of birth format'', confidence = 50\<rparr>]
         | Inr dob \<Rightarrow>
             let age = differenceInYears H (now H) dob
             in if num_lt age (Some 0) \<or> num_gt age (Some 120)
                then [\<lparr>field = ''dateOfBirth'', status = Fail,
                       message = ''Date of birth is invalid'',
                       confidence = f_confidence (dateOfBirth doc)\<rparr>]
                else [\<lparr>field = ''dateOfBirth'', status = Pass,
                       message = ''Age: '' @ show_num age @ '' years'',
                       confidence = f_confidence (dateOfBirth doc)\<rparr>])
      else [])"

definition nameChecks :: "ExtractedDocument \<Rightarrow> ValidationCheck list" where
  "nameChecks doc =
     (if f_value (firstName doc) \<noteq> [] \<and> f_value (lastName doc) \<noteq> [] then
        let hasValidNames = (length (f_value (firstName doc)) > 1 \<and> length (f_value (lastName doc)) > 1)
        in [\<lparr>field = ''name'',
             status = (if hasValidNames then Pass else Warning),
             message = (if hasValidNames then ''Name fields extracted''
                        else ''Name fields may be incomplete''),
             confidence = min (f_confidence (firstName doc)) (f_confidence (lastName doc))\<rparr>]
      else [])"

definition nationalityChecks :: "ExtractedDocument \<Rightarrow> ValidationCheck list" where
  \<comment> \<open>\<open>/^[A-Z]{3}$/.test(doc.nationality.value)\<close>\<close>
  "nationalityChecks doc =
     (if f_value (nationality doc) \<noteq> [] then
        let v = f_value (nationality doc);
            isValid = (length v = 3 \<and> list_all is_upper v)
        in [\<lparr>field = ''nationality'',
             status = (if isValid then Pass else Warning),
             message = (if isValid then ''Nationality code valid''
                        else ''Nationality code format unusual''),
             confidence = f_confidence (nationality doc)\<rparr>]
      else [])"

definition validateDocument :: "'d host \<Rightarrow> ExtractedDocument \<Rightarrow> ValidationCheck list" where
  "validateDocument H doc =
     documentNumberChecks doc
     @ expiryDateChecks H doc
     @ dateOfBirthChecks H doc
     @ nameChecks doc
     @ nationalityChecks doc
     @ (case mrzData doc of Some mrz \<Rightarrow> validateMRZConsistency H doc | None \<Rightarrow> [])"

section \<open>The eligibility engine (\<open>lib/validator\<close>)\<close>

fun join :: "string \<Rightarrow> string list \<Rightarrow> string" where
  \<comment> \<open>\<open>xs.join(sep)\<close>\<close>
  "join sep [] = ''''"
| "join sep [x] = x"
| "join sep (x # y # ys) = x @ sep @ join sep (y # ys)"

definition truthy_num :: "int option \<Rightarrow> bool" where
  \<comment> \<open>an optional number as a condition: \<open>undefined\<close> and \<open>0\<close> are falsy\<close>
  "truthy_num x = (case x of None \<Rightarrow> False | Some k \<Rightarrow> k \<noteq> 0)"

definition validityIssues :: "'d host \<Rightarrow> ExtractedDocument \<Rightarrow> EligibilityPolicy \<Rightarrow> string list" where
  "validityIssues H doc policy =
     (if f_value (expiryDate doc) \<noteq> [] then
        (case parseISO H (f_value (expiryDate doc)) of
           Inl e \<Rightarrow> [''Cannot verify passport validity period'']
         | Inr expiry \<Rightarrow>
             let monthsValid = differenceInMonths H expiry (now H)
             in if num_lt monthsValid (Some (minPassportValidity policy))
                then [''Passport must be valid for at least ''
                        @ show_int (minPassportValidity policy) @ '' months'']
                else [])
      else [])"

definition not_eligible_for :: "ExtractedDocument \<Rightarrow> ApplicantData \<Rightarrow> string" where
  \<comment> \<open>the template literal of both nationality issues\<close>
  "not_eligible_for doc applicant =
     ''Nationality '' @ f_value (nationality doc) @ '' is not eligible for '' @ visaType applicant"

definition allowedIssues :: "ExtractedDocument \<Rightarrow> ApplicantData \<Rightarrow> EligibilityPolicy \<Rightarrow> string list" where
  "allowedIssues doc applicant policy =
     (case allowedNationalities policy of
        None \<Rightarrow> []
      | Some allowed \<Rightarrow>
          if length allowed > 0 then
            (if f_value (nationality doc) \<notin> set allowed then [not_eligible_for doc applicant] else [])
          else [])"

definition blockedIssues :: "ExtractedDocument \<Rightarrow> ApplicantData \<Rightarrow> EligibilityPolicy \<Rightarrow> string list" where
  "blockedIssues doc applicant policy =
     (case blockedNationalities policy of
        None \<Rightarrow> []
      | Some blocked \<Rightarrow>
          if f_value (nationality doc) \<in> set blocked then [not_eligible_for doc applicant] else [])"

definition ageIssues :: "'d host \<Rightarrow> ExtractedDocument \<Rightarrow> EligibilityPolicy \<Rightarrow> string list" where
  "ageIssues H doc policy =
     (if f_value (dateOfBirth doc) \<noteq> [] then
        (case parseISO H (f_value (dateOfBirth doc)) of
           Inl e \<Rightarrow> [''Cannot verify age requirements'']
         | Inr dob \<Rightarrow>
             let age = differenceInYears H (now H) dob
             in (if truthy_num (minAge policy) \<and> num_lt age (minAge policy)
                 then [''Applicant must be at least '' @ show_num (minAge policy) @ '' years old'']
                 else [])
                @ (if truthy_num (maxAge policy) \<and> num_gt age (maxAge policy)
                   then [''Applicant must be under '' @ show_num (maxAge policy) @ '' years old'']
                   else []))
      else [])"

definition passportIssues :: "ExtractedDocument \<Rightarrow> ApplicantData \<Rightarrow> string list" where
  "passportIssues doc applicant =
     (if passportNumber applicant \<noteq> [] \<and> f_value (documentNumber doc) \<noteq> [] then
        (if passportNumber applicant \<noteq> f_value (documentNumber doc)
         then [''Passport number does not match application''] else [])
      else [])"

definition eligibilityIssues ::
  "'d host \<Rightarrow> ExtractedDocument \<Rightarrow> ApplicantData \<Rightarrow> EligibilityPolicy \<Rightarrow> string list" where
  \<comment> \<open>the array \<open>issues\<close> when \<open>checkEligibility\<close> reaches its last statements\<close>
  "eligibilityIssues H doc applicant policy =
     validityIssues H doc policy
     @ allowedIssues doc applicant policy
     @ blockedIssues doc applicant policy
     @ ageIssues H doc policy
     @ passportIssues doc applicant"

definition checkEligibility ::
  "'d host \<Rightarrow> ExtractedDocument \<Rightarrow> ApplicantData \<Rightarrow> EligibilityPolicy \<Rightarrow> EligibilityResult" where
  "checkEligibility H doc applicant policy =
     (let issues = eligibilityIssues H doc applicant policy;
          eligible = (length issues = 0);
          confidence = (if eligible then 95 else 85)
      in \<lparr>eligible = eligible,
          reason = (if eligible then ''All eligibility requirements met'' else join ''; '' issues),
          e_confidence = confidence\<rparr>)"

section \<open>The recommendations (\<open>lib/validator\<close>)\<close>

definition generateRecommendations ::
  "ValidationCheck list \<Rightarrow> EligibilityResult \<Rightarrow> int \<Rightarrow> string list" where
  "generateRecommendations validationChecks eligibility overallConfidence =
     (let failures = filter (\<lambda>c. status c = Fail) validationChecks;
          warnings = filter (\<lambda>c. status c = Warning) validationChecks
      in if length failures > 0 then
           ''REJECT: Critical validation failures detected''
             # map (\<lambda>f. ''- Address '' @ field f @ '': '' @ message f) failures
         else if \<not> eligible eligibility then
           [''REJECT: Applicant does not meet eligibility requirements'',
            ''- '' @ reason eligibility]
         else if overallConfidence < 70 then
           [''MANUAL REVIEW: Low confidence in document extraction'',
            ''- Request higher quality document scan'',
            ''- Verify extracted information manually'']
         else if length warnings > 0 then
           ''MANUAL REVIEW: Warnings detected''
             # map (\<lambda>w. ''- Review '' @ field w @ '': '' @ message w) warnings
         else if overallConfidence \<ge> 90 then
           [''APPROVE: All checks passed with high confidence'',
            ''- Proceed with visa application processing'']
         else
           [''MANUAL REVIEW: Standard verification recommended'',
            ''- Verify key details before approval''])"

section \<open>The merge of the two extractions (\<open>lib/document-analyzer\<close>)\<close>

text \<open>
  \<open>analyzeDocument\<close> awaits the text of the image from the OCR engine and builds the document
  from it. The model starts from that text. Each field of the form \<open>mrzData?.f || g(ocrText)\<close>
  has a right operand that searches the text with regular expressions of the source; the
  model takes the values of these operands, as functions of the text, in a record. An
  \<open>ExtractedField\<close> is an object, and every object is truthy, so the left operand decides as
  soon as \<open>mrzData\<close> is not \<open>null\<close>.
\<close>

record TextExtraction =
  t_documentType :: ExtractedField
  t_documentNumber :: ExtractedField
  t_issuingCountry :: ExtractedField
  t_firstName :: ExtractedField
  t_lastName :: ExtractedField
  t_dateOfBirth :: ExtractedField
  t_nationality :: ExtractedField
  t_sex :: ExtractedField
  t_issueDate :: ExtractedField
  t_expiryDate :: ExtractedField
  t_placeOfBirth :: ExtractedField

definition or_else :: "MRZData option \<Rightarrow> (MRZData \<Rightarrow> ExtractedField) \<Rightarrow> ExtractedField \<Rightarrow> ExtractedField" where
  \<comment> \<open>\<open>mrzData?.f || other\<close>\<close>
  "or_else mrz f other = (case mrz of None \<Rightarrow> other | Some m \<Rightarrow> f m)"

definition analyzeDocument :: "(string \<Rightarrow> TextExtraction) \<Rightarrow> string \<Rightarrow> ExtractedDocument" where
  "analyzeDocument fromText ocrText =
     (let mrzLines = extractMRZ ocrText;
          mrz = (if length mrzLines > 0 then parseMRZ mrzLines else None);
          t = fromText ocrText
      in \<lparr>documentType = or_else mrz mrz_documentType (t_documentType t),
          documentNumber = or_else mrz mrz_documentNumber (t_documentNumber t),
          issuingCountry = or_else mrz mrz_issuingCountry (t_issuingCountry t),
          firstName = or_else mrz mrz_firstName (t_firstName t),
          lastName = or_else mrz mrz_lastName (t_lastName t),
          dateOfBirth = or_else mrz mrz_dateOfBirth (t_dateOfBirth t),
          nationality = or_else mrz mrz_nationality (t_nationality t),
          sex = or_else mrz mrz_sex (t_sex t),
          issueDate = t_issueDate t,
          expiryDate = or_else mrz mrz_expiryDate (t_expiryDate t),
          placeOfBirth = Some (t_placeOfBirth t),
          mrzData = mrz\<rparr>)"

section \<open>Definitions in the words of the specification\<close>

text \<open>
  The definitions of this section are not translated from the code. They say what the
  specification says and are compared with the code in the theorems.
\<close>

definition is_letter :: "char \<Rightarrow> bool" where
  "is_letter c = (is_upper c \<or> is_lower c)"

definition spec_value :: "char \<Rightarrow> int" where
  \<comment> \<open>\<open><\<close> is 0, a digit is its numeric value, a letter is its code minus 55\<close>
  "spec_value c =
     (if c = CHR ''<'' then 0 else if is_digit c then code_of c - 48 else code_of c - 55)"

definition check_digit_spec :: "string \<Rightarrow> int" where
  \<comment> \<open>the value at position \<open>i\<close> times the weight \<open>[7, 3, 1][i mod 3]\<close>, summed, modulo 10\<close>
  "check_digit_spec s =
     (\<Sum>i\<leftarrow>[0..<length s]. spec_value (s ! i) * [7, 3, 1] ! (i mod 3)) mod 10"

definition century_rule :: "int \<Rightarrow> int" where
  \<comment> \<open>2000 plus the two-digit year when it is at most 40, 1900 plus it otherwise\<close>
  "century_rule yy = (if yy \<le> 40 then 2000 + yy else 1900 + yy)"

definition two_digit_year :: "string \<Rightarrow> int" where
  \<comment> \<open>the number that the first two digits of \<open>YYMMDD\<close> write\<close>
  "two_digit_year s = 10 * (code_of (s ! 0) - 48) + (code_of (s ! 1) - 48)"

definition iso_date_spec :: "string \<Rightarrow> string" where
  \<comment> \<open>\<open>YYYY-MM-DD\<close> for the six characters \<open>YYMMDD\<close>\<close>
  "iso_date_spec s =
     show_int (century_rule (two_digit_year s)) @ ''-'' @ [s ! 2, s ! 3] @ ''-'' @ [s ! 4, s ! 5]"

definition other_branch_lines :: "string list" where
  \<comment> \<open>the fixed lines of the branches of \<open>generateRecommendations\<close> after the first\<close>
  "other_branch_lines =
     [''REJECT: Applicant does not meet eligibility requirements'',
      ''MANUAL REVIEW: Low confidence in document extraction'',
      ''- Request higher quality document scan'',
      ''- Verify extracted information manually'',
      ''MANUAL REVIEW: Warnings detected'',
      ''APPROVE: All checks passed with high confidence'',
      ''- Proceed with visa application processing'',
      ''MANUAL REVIEW: Standard verification recommended'',
      ''- Verify key details before approval'']"

section \<open>Sample inputs\<close>

text \<open>
  The two lines of the specimen passport of ICAO document 9303 (44 characters each), a
  first line whose holder has no given name, and a line of 33 capitals such as the line
  filter lets through when it stands below the two lines.
\<close>

definition td3_line1 :: string where
  "td3_line1 = ''P<UTOERIKSSON<<ANNA<MARIA<<<<<<<<<<<<<<<<<<<''"

definition td3_line2 :: string where
  "td3_line2 = ''L898902C36UTO7408122F1204159ZE184226B<<<<<10''"

definition td3_line1_surname_only :: string where
  "td3_line1_surname_only = ''P<UTOERIKSSON<<<<<<<<<<<<<<<<<<<<<<<<<<<<<<<''"

definition footer_line :: string where
  "footer_line = ''THISPASSPORTCONTAINSTHIRTYTWOPAGES''"

definition mrz_fields :: "MRZData \<Rightarrow> ExtractedField list" where
  \<comment> \<open>the ten fields of a decoded record\<close>
  "mrz_fields m =
     [mrz_documentType m, mrz_issuingCountry m, mrz_lastName m, mrz_firstName m,
      mrz_documentNumber m, mrz_nationality m, mrz_dateOfBirth m, mrz_sex m,
      mrz_expiryDate m, mrz_personalNumber m]"

text \<open>The three lines of the specimen card of the same document (30 characters each).\<close>

definition td1_line1 :: string where
  "td1_line1 = ''I<UTOD231458907<<<<<<<<<<<<<<<''"

definition td1_line2 :: string where
  "td1_line2 = ''7408122F1204159UTO<<<<<<<<<<<6''"

definition td1_line3 :: string where
  "td1_line3 = ''ERIKSSON<<ANNA<MARIA<<<<<<<<<<''"

text \<open>
  A host for the samples: what \<open>date-fns\<close> answers for the dates of the samples when the
  clock reads noon of 2 November 2026. The samples use three dates and one string that is
  not a date, \<open>1999-13-45\<close>. \<open>parseISO\<close> of \<open>date-fns\<close> returns an \<open>Invalid Date\<close> for a string
  that it cannot read and does not throw; \<open>isBefore\<close> is false and both differences are
  \<open>NaN\<close> on an \<open>Invalid Date\<close>. The date \<open>2027-11-15\<close> is 12 whole months after the clock,
  \<open>2012-04-15\<close> is 174 whole months before it, and the holder born on \<open>1974-08-12\<close> is 52
  years old. The two functions of the quotient are exact here; no sample reaches them
  with a quotient whose double rounds otherwise.
\<close>

datatype sample_date = Invalid_Date | Clock | Midnight int int int

definition sample_parseISO :: "string \<Rightarrow> thrown + sample_date" where
  "sample_parseISO s =
     (if s = ''2027-11-15'' then Inr (Midnight 2027 11 15)
      else if s = ''2012-04-15'' then Inr (Midnight 2012 4 15)
      else if s = ''1974-08-12'' then Inr (Midnight 1974 8 12)
      else Inr Invalid_Date)"

definition sample_host :: "sample_date host" where
  "sample_host =
     \<lparr>parseISO = sample_parseISO,
      now = Clock,
      isBefore = (\<lambda>a b. a = Midnight 2012 4 15 \<and> b = Clock),
      differenceInMonths =
        (\<lambda>a b. if a = Midnight 2027 11 15 \<and> b = Clock then Some 12
                else if a = Midnight 2012 4 15 \<and> b = Clock then Some (- 174)
                else None),
      differenceInYears =
        (\<lambda>a b. if a = Clock \<and> b = Midnight 1974 8 12 then Some 52 else None),
      quotient_gt_0_8 = (\<lambda>m n. 5 * m > 4 * n),
      quotient_percent = (\<lambda>m n. (200 * int m + int n) div (2 * int n))\<rparr>"

definition no_field :: ExtractedField where
  \<comment> \<open>what the extractors return when nothing matched\<close>
  "no_field = \<lparr>f_value = '''', f_confidence = 0\<rparr>"

definition sample_document :: "string \<Rightarrow> string \<Rightarrow> string \<Rightarrow> ExtractedDocument" where
  \<comment> \<open>a document read from free text, with the given nationality, expiry and birth dates\<close>
  "sample_document nat_code expiry birth =
     \<lparr>documentType = \<lparr>f_value = ''P'', f_confidence = 85\<rparr>,
      documentNumber = \<lparr>f_value = ''L898902C3'', f_confidence = 75\<rparr>,
      issuingCountry = no_field,
      firstName = \<lparr>f_value = ''ANNA MARIA'', f_confidence = 75\<rparr>,
      lastName = \<lparr>f_value = ''ERIKSSON'', f_confidence = 75\<rparr>,
      dateOfBirth = \<lparr>f_value = birth, f_confidence = 75\<rparr>,
      nationality = \<lparr>f_value = nat_code, f_confidence = 75\<rparr>,
      sex = \<lparr>f_value = ''F'', f_confidence = 75\<rparr>,
      issueDate = no_field,
      expiryDate = \<lparr>f_value = expiry, f_confidence = 75\<rparr>,
      placeOfBirth = Some no_field,
      mrzData = None\<rparr>"

definition sample_applicant :: ApplicantData where
  "sample_applicant =
     \<lparr>name = ''Anna Maria Eriksson'', a_dateOfBirth = ''1974-08-12'',
      passportNumber = ''L898902C3'', a_nationality = ''UTO'', visaType = ''tourist''\<rparr>"

definition sample_policy :: "string list option \<Rightarrow> int option \<Rightarrow> int option \<Rightarrow> EligibilityPolicy" where
  \<comment> \<open>six months of validity, with the given block list and age bounds\<close>
  "sample_policy blocked lo hi =
     \<lparr>minPassportValidity = 6, allowedNationalities = None, blockedNationalities = blocked,
      minAge = lo, maxAge = hi, requireBiometric = None\<rparr>"

text \<open>
  The text of a page whose holder has a surname only in the machine-readable zone, while
  the printed page gives a first name that the text extraction finds.
\<close>

definition sample_text :: string where
  "sample_text = td3_line1_surname_only @ [CHR 0x0A] @ td3_line2"

definition sample_fromText :: "string \<Rightarrow> TextExtraction" where
  "sample_fromText ocrText =
     \<lparr>t_documentType = \<lparr>f_value = ''UNKNOWN'', f_confidence = 40\<rparr>,
      t_documentNumber = no_field, t_issuingCountry = no_field,
      t_firstName = \<lparr>f_value = ''ANNA'', f_confidence = 75\<rparr>,
      t_lastName = no_field, t_dateOfBirth = no_field, t_nationality = no_field,
      t_sex = no_field, t_issueDate = no_field, t_expiryDate = no_field,
      t_placeOfBirth = no_field\<rparr>"

definition specimen_text :: string where
  \<comment> \<open>the two lines of the specimen passport as the OCR engine returns them\<close>
  "specimen_text = td3_line1 @ [CHR 0x0A] @ td3_line2"

section \<open>The check digit\<close>

lemma code_of_inj: "code_of c = code_of d \<Longrightarrow> c = d"
  by (simp add: code_of_def)

lemma parseInt_digit: "is_digit c \<Longrightarrow> parseInt [c] = Some (code_of c - 48)"
  by (auto simp: parseInt_def parseInt_unsigned_def is_js_space_def is_digit_def digit_val_def
      radix_value_def code_of_def)

lemma char_value_spec: "char_value c = spec_value c"
  by (simp add: char_value_def spec_value_def parseInt_digit)

lemma check_loop_sum:
  "check_loop cs i acc =
     acc + (\<Sum>j\<leftarrow>[0..<length cs]. spec_value (cs ! j) * weights ! ((i + j) mod 3))"
proof (induction cs arbitrary: i acc)
  case Nil
  then show ?case by simp
next
  case (Cons c cs)
  have "[0..<length (c # cs)] = 0 # map Suc [0..<length cs]"
    by (simp add: upt_conv_Cons map_Suc_upt del: upt_Suc)
  then show ?case
    by (simp add: Cons.IH char_value_spec comp_def del: upt_Suc)
qed

lemma smod_nonneg: "0 \<le> k \<Longrightarrow> k smod 10 = k mod (10::int)"
  by (simp add: smod_int_alt_def sgn_if)

lemma spec_value_nonneg: "c = CHR ''<'' \<or> is_digit c \<or> is_letter c \<Longrightarrow> 0 \<le> spec_value c"
  by (auto simp: spec_value_def is_digit_def is_letter_def is_upper_def is_lower_def)

lemma weights_nonneg: "0 \<le> weights ! (i mod 3)"
proof -
  have "i mod 3 = 0 \<or> i mod 3 = 1 \<or> i mod 3 = 2" by arith
  then show ?thesis by (auto simp: weights_def)
qed

lemma spec_sum_nonneg:
  assumes "\<forall>c\<in>set s. c = CHR ''<'' \<or> is_digit c \<or> is_letter c"
  shows "0 \<le> (\<Sum>j\<leftarrow>[0..<length s]. spec_value (s ! j) * weights ! ((0 + j) mod 3))"
proof (rule sum_list_nonneg)
  fix x assume "x \<in> set (map (\<lambda>j. spec_value (s ! j) * weights ! ((0 + j) mod 3)) [0..<length s])"
  then obtain j where j: "j < length s" and x: "x = spec_value (s ! j) * weights ! ((0 + j) mod 3)"
    by auto
  from j assms have "0 \<le> spec_value (s ! j)"
    by (intro spec_value_nonneg) simp
  with x show "0 \<le> x" by (simp add: weights_nonneg)
qed

lemma calculateCheckDigit_refines:
  assumes "\<forall>c\<in>set s. c = CHR ''<'' \<or> is_digit c \<or> is_letter c"
  shows "calculateCheckDigit s = check_digit_spec s"
  using spec_sum_nonneg [OF assms]
  by (simp add: calculateCheckDigit_def check_loop_sum smod_nonneg check_digit_spec_def weights_def)

lemma calc_123456789: "calculateCheckDigit ''123456789'' = 7"
  by (simp add: calculateCheckDigit_def check_loop_sum spec_value_def is_digit_def code_of_def
      weights_def upt_rec smod_int_alt_def)

lemma validate_digit:
  "is_digit d \<Longrightarrow> validateCheckDigit ''123456789'' [d] = (d = CHR ''7'')"
proof -
  assume d: "is_digit d"
  have "code_of (CHR ''7'') = 55" by (simp add: code_of_def)
  then have "(code_of d - 48 = 7) = (d = CHR ''7'')"
    using code_of_inj [of d "CHR ''7''"] by auto
  with d show ?thesis
    by (simp add: validateCheckDigit_def parseInt_digit calc_123456789)
qed

text \<open>
  Claim C2. The check digit of a data string maps \<open><\<close> to 0, a digit to its numeric
  value and a letter to its character code minus 55, multiplies the value at position \<open>i\<close>
  by the weight \<open>[7, 3, 1][i mod 3]\<close>, sums the products and returns the sum modulo 10.
  For \<open>123456789\<close> it is 7, and \<open>validateCheckDigit\<close> on that data answers true for
  the check digit \<open>7\<close> and false for each of the other nine digits.
\<close>

theorem check_digit_algorithm:
  "(\<forall>s. (\<forall>c\<in>set s. c = CHR ''<'' \<or> is_digit c \<or> is_letter c) \<longrightarrow>
        calculateCheckDigit s = check_digit_spec s)
   \<and> calculateCheckDigit ''123456789'' = 7
   \<and> validateCheckDigit ''123456789'' ''7''
   \<and> (\<forall>d. is_digit d \<and> d \<noteq> CHR ''7'' \<longrightarrow> \<not> validateCheckDigit ''123456789'' [d])"
proof -
  have "is_digit (CHR ''7'')" by (simp add: is_digit_def code_of_def)
  then have "validateCheckDigit ''123456789'' ''7''"
    by (simp add: validate_digit)
  then show ?thesis
    by (simp add: calculateCheckDigit_refines calc_123456789 validate_digit)
qed

theorem check_digit_algorithm_witness:
  "calculateCheckDigit ''L898902C3'' = check_digit_spec ''L898902C3''
   \<and> check_digit_spec ''L898902C3'' = 6
   \<and> \<not> validateCheckDigit ''123456789'' ''3''"
proof -
  have a: "\<forall>c\<in>set ''L898902C3''. c = CHR ''<'' \<or> is_digit c \<or> is_letter c"
    by (simp add: is_digit_def is_letter_def is_upper_def is_lower_def code_of_def)
  have b: "is_digit (CHR ''3'') \<and> CHR ''3'' \<noteq> CHR ''7''"
    by (simp add: is_digit_def code_of_def)
  have c: "check_digit_spec ''L898902C3'' = 6"
    by (simp add: check_digit_spec_def spec_value_def is_digit_def code_of_def upt_rec)
  from check_digit_algorithm a b c show ?thesis
    by blast
qed

section \<open>The dates of the MRZ\<close>

lemma parseInt_two_digits:
  assumes "is_digit a" "is_digit b"
  shows "parseInt [a, b] = Some (10 * (code_of a - 48) + (code_of b - 48))"
proof -
  have "b \<noteq> CHR ''x''" "b \<noteq> CHR ''X''" "a \<noteq> CHR ''-''" "a \<noteq> CHR ''+''" "\<not> is_js_space a"
    using assms by (auto simp: is_digit_def code_of_def is_js_space_def)
  then show ?thesis
    using assms
    by (simp add: parseInt_def parseInt_unsigned_def digit_val_def radix_value_def is_digit_def)
qed

lemma length_6_cases:
  "length s = 6 \<Longrightarrow> \<exists>a b c d e f. s = [a, b, c, d, e, f]"
  by (auto simp: length_Suc_conv eval_nat_numeral)

lemma show_nat_small: "n < 10 \<Longrightarrow> show_nat n = [''0123456789'' ! n]"
  by (subst show_nat.simps) simp

lemma show_nat_step: "10 \<le> n \<Longrightarrow> show_nat n = show_nat (n div 10) @ [''0123456789'' ! (n mod 10)]"
  by (subst show_nat.simps) simp

lemma show_nat_4: "1000 \<le> n \<Longrightarrow> n < 10000 \<Longrightarrow> length (show_nat n) = 4"
proof -
  assume n: "1000 \<le> n" "n < 10000"
  define a where "a = n div 10"
  define b where "b = a div 10"
  define c where "c = b div 10"
  have r: "10 \<le> n" "10 \<le> a" "10 \<le> b" "c < 10"
    using n unfolding a_def b_def c_def by arith+
  have "length (show_nat c) = 1"
    using r by (simp add: show_nat_small)
  then have "length (show_nat b) = 2"
    using r show_nat_step [of b] by (simp add: c_def)
  then have "length (show_nat a) = 3"
    using r show_nat_step [of a] by (simp add: b_def)
  then show ?thesis
    using r show_nat_step [of n] by (simp add: a_def)
qed

lemma parseDate_digits:
  assumes "length s = 6" "list_all is_digit s"
  shows "parseDate s = iso_date_spec s \<and> length (parseDate s) = 10"
proof -
  from assms(1) obtain a b c d e f where s: "s = [a, b, c, d, e, f]"
    using length_6_cases by blast
  with assms(2) have ab: "is_digit a" "is_digit b" by simp_all
  then have r: "0 \<le> two_digit_year s" "two_digit_year s \<le> 99"
    by (simp_all add: two_digit_year_def s is_digit_def)
  have eq: "parseDate s = iso_date_spec s"
    by (simp add: s parseDate_def substring_def parseInt_two_digits ab iso_date_spec_def
        two_digit_year_def century_rule_def show_num_def Let_def)
  have "length (show_int (century_rule (two_digit_year s))) = 4"
    using r by (simp add: show_int_def century_rule_def show_nat_4)
  then show ?thesis
    by (simp add: eq iso_date_spec_def)
qed

text \<open>
  Claim C8. \<open>parseDate\<close> maps every string of six digits \<open>YYMMDD\<close> to the ISO string
  \<open>YYYY-MM-DD\<close> of ten characters, whose year is 2000 plus the two-digit year when that is
  at most 40 and 1900 plus it otherwise, and maps every string whose length is not 6 to
  the empty string.
\<close>

theorem parseDate_century_rule:
  "(length s = 6 \<and> list_all is_digit s \<longrightarrow>
      parseDate s = iso_date_spec s \<and> length (parseDate s) = 10)
   \<and> (length s \<noteq> 6 \<longrightarrow> parseDate s = '''')"
proof -
  have digits: "length s = 6 \<and> list_all is_digit s \<longrightarrow>
      parseDate s = iso_date_spec s \<and> length (parseDate s) = 10"
    using parseDate_digits by blast
  have other: "length s \<noteq> 6 \<longrightarrow> parseDate s = ''''"
    by (simp add: parseDate_def)
  from digits other show ?thesis by blast
qed

theorem parseDate_century_rule_witness:
  "parseDate ''400229'' = ''2040-02-29'' \<and> parseDate ''410812'' = ''1941-08-12''
   \<and> parseDate ''7408122'' = ''''"
proof -
  have a: "length ''400229'' = 6 \<and> list_all is_digit ''400229''"
    by (simp add: is_digit_def code_of_def)
  have b: "length ''410812'' = 6 \<and> list_all is_digit ''410812''"
    by (simp add: is_digit_def code_of_def)
  have c: "length ''7408122'' \<noteq> 6" by simp
  have d: "iso_date_spec ''400229'' = ''2040-02-29''" "iso_date_spec ''410812'' = ''1941-08-12''"
    by (simp_all add: iso_date_spec_def two_digit_year_def century_rule_def code_of_def
        show_int_def show_nat.simps)
  from parseDate_century_rule [of "''400229''"] parseDate_century_rule [of "''410812''"]
    parseDate_century_rule [of "''7408122''"] a b c d
  show ?thesis by metis
qed

section \<open>The samples through the line filter and the merge\<close>

lemma split_char_no_sep: "k \<notin> set s \<Longrightarrow> split_char k cur s = [rev cur @ s]"
  by (induction s arbitrary: cur) auto

lemma split_char_append:
  "k \<notin> set a \<Longrightarrow> split_char k cur (a @ k # b) = (rev cur @ a) # split_char k [] b"
  by (induction a arbitrary: cur) auto

lemma mrz_char_not_space: "is_mrz_char c \<Longrightarrow> \<not> is_js_space c"
  by (auto simp: is_mrz_char_def is_js_space_def is_upper_def is_digit_def code_of_def)

lemma trim_mrz: 
  assumes "list_all is_mrz_char s" shows "trim s = s"
proof -
  have "dropWhile is_js_space t = t" if "list_all is_mrz_char t" for t
    using that by (cases t) (auto simp: mrz_char_not_space)
  moreover have "list_all is_mrz_char (rev s)" using assms by (simp add: list_all_iff)
  ultimately show ?thesis using assms by (simp add: trim_def)
qed

lemma clean_mrz:
  assumes "mrzPattern s"
  shows "filter is_mrz_char (trim s) = s"
  using assms by (simp add: mrzPattern_def trim_mrz list_all_iff)

lemma extractMRZ_two_lines:
  assumes "mrzPattern a" "mrzPattern b" "CHR 0x0A \<notin> set a" "CHR 0x0A \<notin> set b"
  shows "extractMRZ (a @ CHR 0x0A # b) = [a, b]"
  using assms
  by (simp add: extractMRZ_def split_char_append split_char_no_sep clean_mrz Let_def)
    (simp add: mrzPattern_def)

lemma extractMRZ_three_lines:
  assumes "mrzPattern a" "mrzPattern b" "mrzPattern c"
    and "CHR 0x0A \<notin> set a" "CHR 0x0A \<notin> set b" "CHR 0x0A \<notin> set c"
  shows "extractMRZ (a @ CHR 0x0A # b @ CHR 0x0A # c) = [a, b, c]"
  using assms
  by (simp add: extractMRZ_def split_char_append split_char_no_sep clean_mrz Let_def)
    (simp add: mrzPattern_def)

lemma mrzPattern_samples:
  "mrzPattern td3_line1" "mrzPattern td3_line2" "mrzPattern td3_line1_surname_only"
  "mrzPattern footer_line"
  by (simp_all add: mrzPattern_def td3_line1_def td3_line2_def td3_line1_surname_only_def
      footer_line_def is_mrz_char_def is_upper_def is_digit_def code_of_def)

lemma no_newline_samples:
  "CHR 0x0A \<notin> set td3_line1" "CHR 0x0A \<notin> set td3_line2" "CHR 0x0A \<notin> set td3_line1_surname_only"
  "CHR 0x0A \<notin> set footer_line"
  by (simp_all add: td3_line1_def td3_line2_def td3_line1_surname_only_def footer_line_def)

lemma length_samples:
  "length td3_line1 = 44" "length td3_line2 = 44" "length td3_line1_surname_only = 44"
  by (simp_all add: td3_line1_def td3_line2_def td3_line1_surname_only_def)

lemma specimen_mrzData:
  "mrzData (analyzeDocument fromText specimen_text) = Some (parseTD3 td3_line1 td3_line2)"
  by (simp add: analyzeDocument_def specimen_text_def extractMRZ_two_lines mrzPattern_samples
      no_newline_samples parseMRZ_def length_samples Let_def)

lemma sample_mrzData:
  "mrzData (analyzeDocument fromText sample_text) =
     Some (parseTD3 td3_line1_surname_only td3_line2)"
  by (simp add: analyzeDocument_def sample_text_def extractMRZ_two_lines mrzPattern_samples
      no_newline_samples parseMRZ_def length_samples Let_def)

lemma analyzeDocument_fields:
  assumes "mrzData (analyzeDocument fromText ocrText) = Some m"
  shows "documentType (analyzeDocument fromText ocrText) = mrz_documentType m"
    "documentNumber (analyzeDocument fromText ocrText) = mrz_documentNumber m"
    "issuingCountry (analyzeDocument fromText ocrText) = mrz_issuingCountry m"
    "firstName (analyzeDocument fromText ocrText) = mrz_firstName m"
    "lastName (analyzeDocument fromText ocrText) = mrz_lastName m"
    "dateOfBirth (analyzeDocument fromText ocrText) = mrz_dateOfBirth m"
    "nationality (analyzeDocument fromText ocrText) = mrz_nationality m"
    "sex (analyzeDocument fromText ocrText) = mrz_sex m"
    "expiryDate (analyzeDocument fromText ocrText) = mrz_expiryDate m"
  using assms by (simp_all add: analyzeDocument_def Let_def or_else_def)

section \<open>The choice of the layout\<close>

text \<open>
  Claim C1 as the specification states it says that three lines are never decoded as a
  passport. They are: the specimen passport followed by one more line, which the line
  filter returns as three lines, is decoded by \<open>parseTD3\<close>, since \<open>parseMRZ\<close> refuses fewer
  than two lines and then looks at the lengths of the first two only.
\<close>

theorem parseMRZ_three_lines_counterexample:
  "extractMRZ (td3_line1 @ CHR 0x0A # td3_line2 @ CHR 0x0A # footer_line)
     = [td3_line1, td3_line2, footer_line]
   \<and> parseMRZ [td3_line1, td3_line2, footer_line] = Some (parseTD3 td3_line1 td3_line2)"
  by (simp add: extractMRZ_three_lines mrzPattern_samples no_newline_samples parseMRZ_def
      length_samples)

text \<open>
  Claim C1, as amended. \<open>parseMRZ\<close> decodes with the TD3 layout exactly when the input has
  at least two lines and the first two both have length 44, on these two lines; it decodes
  with the TD1 layout exactly when the input is exactly three lines of which the first
  has length 30; every other input gives \<open>null\<close>. The function is total: no input makes
  it throw.
\<close>

theorem parseMRZ_layout:
  "parseMRZ mrzLines =
     (if 2 \<le> length mrzLines \<and> length (mrzLines ! 0) = 44 \<and> length (mrzLines ! 1) = 44
      then Some (parseTD3 (mrzLines ! 0) (mrzLines ! 1))
      else if length mrzLines = 3 \<and> length (mrzLines ! 0) = 30
      then Some (parseTD1 (mrzLines ! 0) (mrzLines ! 1) (mrzLines ! 2))
      else None)"
  by (simp add: parseMRZ_def Let_def)

theorem parseMRZ_layout_witness:
  "parseMRZ [td3_line1, td3_line2] = Some (parseTD3 td3_line1 td3_line2)
   \<and> parseMRZ [td1_line1, td1_line2, td1_line3] = Some (parseTD1 td1_line1 td1_line2 td1_line3)
   \<and> parseMRZ [td3_line1] = None
   \<and> parseMRZ [footer_line, td3_line1, td3_line2] = None"
  using parseMRZ_layout [of "[td3_line1, td3_line2]"]
    parseMRZ_layout [of "[td1_line1, td1_line2, td1_line3]"]
    parseMRZ_layout [of "[td3_line1]"]
    parseMRZ_layout [of "[footer_line, td3_line1, td3_line2]"]
  by (simp add: td3_line1_def td3_line2_def td1_line1_def footer_line_def)

section \<open>Confidence and emptiness of a field\<close>

lemma extract_zero_confidence:
  "f_confidence (extractFieldFromText t ps) = 0 \<Longrightarrow> f_value (extractFieldFromText t ps) = []"
  by (induction ps) (auto split: option.splits if_splits)

lemma parseTD3_zero_confidence:
  "\<forall>f\<in>set (mrz_fields (parseTD3 l1 l2)). f_confidence f = 0 \<longrightarrow> f_value f = []"
  by (simp add: parseTD3_def Let_def mrz_fields_def)

lemma parseTD1_zero_confidence:
  "\<forall>f\<in>set (mrz_fields (parseTD1 l1 l2 l3)). f_confidence f = 0 \<longrightarrow> f_value f = []"
  by (simp add: parseTD1_def Let_def mrz_fields_def)

lemma parseTD3_personalNumber:
  "(f_confidence (mrz_personalNumber (parseTD3 l1 l2)) = 0) =
   (f_value (mrz_personalNumber (parseTD3 l1 l2)) = [])"
  by (simp add: parseTD3_def Let_def)

lemma parseTD1_personalNumber:
  "mrz_personalNumber (parseTD1 l1 l2 l3) = \<lparr>f_value = [], f_confidence = 0\<rparr>"
  by (simp add: parseTD1_def Let_def)

lemma parseTD3_checksumValid:
  "mrz_checksumValid (parseTD3 l1 l2) =
     (validateCheckDigit (strip_fill (substring l2 0 9)) (substring l2 9 10)
      \<and> validateCheckDigit (substring l2 13 19) (substring l2 19 20)
      \<and> validateCheckDigit (substring l2 21 27) (substring l2 27 28))"
  by (simp add: parseTD3_def Let_def)

lemma parseTD3_names:
  "mrz_lastName (parseTD3 l1 l2) =
     \<lparr>f_value = last_name_of (split_ll (substring_from l1 5)),
      f_confidence = (if mrz_checksumValid (parseTD3 l1 l2) then 95 else 70)\<rparr>"
  "mrz_firstName (parseTD3 l1 l2) =
     \<lparr>f_value = first_name_of (split_ll (substring_from l1 5)),
      f_confidence = (if mrz_checksumValid (parseTD3 l1 l2) then 95 else 70)\<rparr>"
  by (simp_all add: parseTD3_def Let_def)

lemma parseTD3_documentNumber:
  "mrz_documentNumber (parseTD3 l1 l2) =
     \<lparr>f_value = strip_fill (substring l2 0 9),
      f_confidence = (if mrz_checksumValid (parseTD3 l1 l2) then 95 else 70)\<rparr>"
  by (simp add: parseTD3_def Let_def)

lemma strip_fill_simps:
  "strip_fill [] = []"
  "strip_fill (c # cs) = (if strip_fill cs = [] \<and> c = CHR ''<'' then [] else c # strip_fill cs)"
  by (auto simp: strip_fill_def dropWhile_append)

lemma td3_line2_checksums:
  "validateCheckDigit ''L898902C3'' ''6''"
  "validateCheckDigit ''740812'' ''2''"
  "validateCheckDigit ''120415'' ''9''"
  by (simp_all add: validateCheckDigit_def parseInt_digit is_digit_def code_of_def
      calculateCheckDigit_def check_loop_sum spec_value_def weights_def upt_rec smod_int_alt_def)

lemma td3_line2_valid: "mrz_checksumValid (parseTD3 l1 td3_line2)"
  by (simp add: parseTD3_checksumValid td3_line2_def substring_def strip_fill_simps
      td3_line2_checksums)

lemma td3_line2_documentNumber:
  "mrz_documentNumber (parseTD3 l1 td3_line2) = \<lparr>f_value = ''L898902C3'', f_confidence = 95\<rparr>"
  by (simp add: parseTD3_documentNumber td3_line2_valid)
    (simp add: td3_line2_def substring_def strip_fill_simps)

lemma surname_only_names:
  "mrz_lastName (parseTD3 td3_line1_surname_only td3_line2) =
     \<lparr>f_value = ''ERIKSSON'', f_confidence = 95\<rparr>"
  "mrz_firstName (parseTD3 td3_line1_surname_only td3_line2) =
     \<lparr>f_value = [], f_confidence = 95\<rparr>"
  by (simp_all add: parseTD3_names td3_line2_valid)
    (simp_all add: td3_line1_surname_only_def substring_from_def split_ll_def last_name_of_def
      first_name_of_def name_half_def trim_def fill_to_space_def is_js_space_def code_of_def)

lemma specimen_names:
  "mrz_lastName (parseTD3 td3_line1 td3_line2) = \<lparr>f_value = ''ERIKSSON'', f_confidence = 95\<rparr>"
  "mrz_firstName (parseTD3 td3_line1 td3_line2) = \<lparr>f_value = ''ANNA MARIA'', f_confidence = 95\<rparr>"
  by (simp_all add: parseTD3_names td3_line2_valid)
    (simp_all add: td3_line1_def substring_from_def split_ll_def last_name_of_def
      first_name_of_def name_half_def trim_def fill_to_space_def is_js_space_def code_of_def)

text \<open>
  Claim C3 as the specification states it fails on a passport whose holder has a surname
  only: the decoder gives the given name the empty value and the confidence of the record,
  which is 95 here.
\<close>

theorem empty_given_name_counterexample:
  "f_value (mrz_firstName (parseTD3 td3_line1_surname_only td3_line2)) = []
   \<and> f_confidence (mrz_firstName (parseTD3 td3_line1_surname_only td3_line2)) = 95"
  by (simp add: surname_only_names)

text \<open>
  Claim C3, as amended. Every field that \<open>parseTD3\<close>, \<open>parseTD1\<close> or \<open>extractFieldFromText\<close>
  produces with confidence 0 has the empty value: none is emitted with confidence 0 and a
  value that is not empty. The converse holds for the personal number of both decoders.
\<close>

theorem zero_confidence_has_empty_value:
  "(\<forall>f\<in>set (mrz_fields (parseTD3 l1 l2)). f_confidence f = 0 \<longrightarrow> f_value f = [])
   \<and> (\<forall>f\<in>set (mrz_fields (parseTD1 k1 k2 k3)). f_confidence f = 0 \<longrightarrow> f_value f = [])
   \<and> (f_confidence (extractFieldFromText t ps) = 0 \<longrightarrow> f_value (extractFieldFromText t ps) = [])
   \<and> ((f_confidence (mrz_personalNumber (parseTD3 l1 l2)) = 0) =
        (f_value (mrz_personalNumber (parseTD3 l1 l2)) = []))
   \<and> ((f_confidence (mrz_personalNumber (parseTD1 k1 k2 k3)) = 0) =
        (f_value (mrz_personalNumber (parseTD1 k1 k2 k3)) = []))"
  using parseTD3_zero_confidence [of l1 l2] parseTD1_zero_confidence [of k1 k2 k3]
    extract_zero_confidence [of t ps] parseTD3_personalNumber [of l1 l2]
  by (simp add: parseTD1_personalNumber)

theorem zero_confidence_has_empty_value_witness:
  "f_confidence (mrz_personalNumber (parseTD1 td1_line1 td1_line2 td1_line3)) = 0
   \<and> f_value (mrz_personalNumber (parseTD1 td1_line1 td1_line2 td1_line3)) = []
   \<and> f_confidence (extractFieldFromText ''Passport No: L898902C3'' [\<lambda>t. None]) = 0
   \<and> f_value (extractFieldFromText ''Passport No: L898902C3'' [\<lambda>t. None]) = []"
proof -
  have a: "mrz_personalNumber (parseTD1 td1_line1 td1_line2 td1_line3)
             \<in> set (mrz_fields (parseTD1 td1_line1 td1_line2 td1_line3))"
    by (simp add: mrz_fields_def)
  have b: "f_confidence (mrz_personalNumber (parseTD1 td1_line1 td1_line2 td1_line3)) = 0"
    by (simp add: parseTD1_def Let_def)
  have c: "f_confidence (extractFieldFromText ''Passport No: L898902C3'' [\<lambda>t. None]) = 0"
    by simp
  from a b c
    zero_confidence_has_empty_value [where ?k1.0 = td1_line1 and ?k2.0 = td1_line2
      and ?k3.0 = td1_line3 and t = "''Passport No: L898902C3''" and ps = "[\<lambda>t. None]"]
  show ?thesis by blast
qed

section \<open>The checks of the expiry date\<close>

lemma field_documentNumberChecks:
  "c \<in> set (documentNumberChecks doc) \<Longrightarrow> field c = ''documentNumber''"
  by (auto simp: documentNumberChecks_def Let_def split: if_splits)

lemma field_expiryDateChecks:
  "c \<in> set (expiryDateChecks H doc) \<Longrightarrow> field c = ''expiryDate''"
  by (auto simp: expiryDateChecks_def Let_def split: if_splits sum.splits)

lemma field_dateOfBirthChecks:
  "c \<in> set (dateOfBirthChecks H doc) \<Longrightarrow> field c = ''dateOfBirth''"
  by (auto simp: dateOfBirthChecks_def Let_def split: if_splits sum.splits)

lemma field_nameChecks:
  "c \<in> set (nameChecks doc) \<Longrightarrow> field c = ''name''"
  by (auto simp: nameChecks_def Let_def split: if_splits)

lemma field_nationalityChecks:
  "c \<in> set (nationalityChecks doc) \<Longrightarrow> field c = ''nationality''"
  by (auto simp: nationalityChecks_def Let_def split: if_splits)

lemma field_validateMRZConsistency:
  "c \<in> set (validateMRZConsistency H doc) \<Longrightarrow>
     field c = ''mrzChecksum'' \<or> field c = ''documentNumberMatch'' \<or> field c = ''nameMatch''"
  by (auto simp: validateMRZConsistency_def Let_def split: if_splits option.splits)

lemma filter_other_field:
  assumes "\<And>c. c \<in> set cs \<Longrightarrow> field c \<noteq> f"
  shows "filter (\<lambda>c. field c = f) cs = []"
  using assms by (simp add: filter_empty_conv)

lemma filter_same_field:
  assumes "\<And>c. c \<in> set cs \<Longrightarrow> field c = f"
  shows "filter (\<lambda>c. field c = f) cs = cs"
  using assms by (simp add: filter_id_conv)

lemma expiry_checks_of_validateDocument:
  "filter (\<lambda>c. field c = ''expiryDate'') (validateDocument H doc) = expiryDateChecks H doc"
proof -
  have 1: "filter (\<lambda>c. field c = ''expiryDate'') (documentNumberChecks doc) = []"
    by (rule filter_other_field) (auto dest: field_documentNumberChecks)
  have 2: "filter (\<lambda>c. field c = ''expiryDate'') (expiryDateChecks H doc) = expiryDateChecks H doc"
    by (rule filter_same_field) (auto dest: field_expiryDateChecks)
  have 3: "filter (\<lambda>c. field c = ''expiryDate'') (dateOfBirthChecks H doc) = []"
    by (rule filter_other_field) (auto dest: field_dateOfBirthChecks)
  have 4: "filter (\<lambda>c. field c = ''expiryDate'') (nameChecks doc) = []"
    by (rule filter_other_field) (auto dest: field_nameChecks)
  have 5: "filter (\<lambda>c. field c = ''expiryDate'') (nationalityChecks doc) = []"
    by (rule filter_other_field) (auto dest: field_nationalityChecks)
  have 6: "filter (\<lambda>c. field c = ''expiryDate'') (validateMRZConsistency H doc) = []"
    by (rule filter_other_field) (auto dest: field_validateMRZConsistency)
  show ?thesis
    by (simp add: validateDocument_def 1 2 3 4 5 6 split: option.splits)
qed

text \<open>
  Claim C4 says that an expiry date which cannot be parsed gets a fail check with
  confidence 50 and the message \<open>Invalid expiry date format\<close>. The source pushes this check
  in a \<open>catch\<close> clause. \<open>parseISO\<close> of \<open>date-fns\<close> does not throw on such a string: it returns
  an \<open>Invalid Date\<close>, for which \<open>isBefore\<close> is false and \<open>differenceInMonths\<close> is \<open>NaN\<close>.
  With such an answer the only expiry check that \<open>validateDocument\<close> emits is a pass check
  with the message \<open>Document is valid\<close> and the confidence of the field.
\<close>

theorem invalid_expiry_date_passes:
  assumes "f_value (expiryDate doc) \<noteq> []"
    and "parseISO H (f_value (expiryDate doc)) = Inr d"
    and "\<not> isBefore H d (now H)"
    and "differenceInMonths H d (now H) = None"
  shows "filter (\<lambda>c. field c = ''expiryDate'') (validateDocument H doc) =
           [\<lparr>field = ''expiryDate'', status = Pass, message = ''Document is valid'',
             confidence = f_confidence (expiryDate doc)\<rparr>]"
  using assms
  by (simp add: expiry_checks_of_validateDocument expiryDateChecks_def num_lt_def)

theorem invalid_expiry_date_passes_witness:
  "filter (\<lambda>c. field c = ''expiryDate'')
     (validateDocument sample_host (sample_document ''UTO'' ''1999-13-45'' ''1974-08-12'')) =
     [\<lparr>field = ''expiryDate'', status = Pass, message = ''Document is valid'', confidence = 75\<rparr>]"
proof -
  let ?doc = "sample_document ''UTO'' ''1999-13-45'' ''1974-08-12''"
  have a: "f_value (expiryDate ?doc) \<noteq> []" "f_confidence (expiryDate ?doc) = 75"
    by (simp_all add: sample_document_def)
  have b: "parseISO sample_host (f_value (expiryDate ?doc)) = Inr Invalid_Date"
    by (simp add: sample_document_def sample_host_def sample_parseISO_def)
  have c: "\<not> isBefore sample_host Invalid_Date (now sample_host)"
    "differenceInMonths sample_host Invalid_Date (now sample_host) = None"
    by (simp_all add: sample_host_def)
  from invalid_expiry_date_passes [OF a(1) b c] a(2) show ?thesis by simp
qed

section \<open>The order of the checks\<close>

lemma fields_of_validateMRZConsistency:
  assumes "mrzData doc = Some m"
    and "f_value (documentNumber doc) \<noteq> []" and "f_value (mrz_documentNumber m) \<noteq> []"
    and "f_value (lastName doc) \<noteq> []" and "f_value (mrz_lastName m) \<noteq> []"
  shows "map field (validateMRZConsistency H doc) =
           [''mrzChecksum'', ''documentNumberMatch'', ''nameMatch'']"
  using assms by (simp add: validateMRZConsistency_def Let_def)

lemma fields_of_documentNumberChecks:
  "f_value (documentNumber doc) \<noteq> [] \<Longrightarrow> map field (documentNumberChecks doc) = [''documentNumber'']"
  by (simp add: documentNumberChecks_def Let_def)

lemma fields_of_middle:
  "set (map field (expiryDateChecks H doc @ dateOfBirthChecks H doc @ nameChecks doc
          @ nationalityChecks doc))
     \<subseteq> {''expiryDate'', ''dateOfBirth'', ''name'', ''nationality''}"
  using field_expiryDateChecks [of _ H doc] field_dateOfBirthChecks [of _ H doc]
    field_nameChecks [of _ doc] field_nationalityChecks [of _ doc]
  by auto

text \<open>
  Claim C5. For a document with all fields populated and \<open>mrzData\<close> present (of this the
  proof uses that the document number and the last name are not empty, in the document
  and in its MRZ record), the fields of the checks of \<open>validateDocument\<close> begin with
  \<open>documentNumber\<close> and end with \<open>mrzChecksum\<close>, \<open>documentNumberMatch\<close>, \<open>nameMatch\<close>, in this
  order; the checks between them are checks of the expiry date, the date of birth, the
  name and the nationality.
\<close>

theorem validation_order:
  assumes "mrzData doc = Some m"
    and "f_value (documentNumber doc) \<noteq> []" and "f_value (mrz_documentNumber m) \<noteq> []"
    and "f_value (lastName doc) \<noteq> []" and "f_value (mrz_lastName m) \<noteq> []"
  shows "\<exists>middle. map field (validateDocument H doc) =
           ''documentNumber'' # middle @ [''mrzChecksum'', ''documentNumberMatch'', ''nameMatch'']
         \<and> set middle \<subseteq> {''expiryDate'', ''dateOfBirth'', ''name'', ''nationality''}"
proof -
  let ?middle = "map field (expiryDateChecks H doc @ dateOfBirthChecks H doc @ nameChecks doc
                   @ nationalityChecks doc)"
  have whole: "map field (validateDocument H doc) =
          ''documentNumber'' # ?middle @ [''mrzChecksum'', ''documentNumberMatch'', ''nameMatch'']"
    using assms
    by (simp add: validateDocument_def fields_of_documentNumberChecks
        fields_of_validateMRZConsistency [OF assms])
  show ?thesis
  proof (intro exI conjI)
    show "map field (validateDocument H doc) =
          ''documentNumber'' # ?middle @ [''mrzChecksum'', ''documentNumberMatch'', ''nameMatch'']"
      by (fact whole)
    show "set ?middle \<subseteq> {''expiryDate'', ''dateOfBirth'', ''name'', ''nationality''}"
      by (rule fields_of_middle)
  qed
qed

theorem validation_order_witness:
  "\<exists>middle.
     map field (validateDocument sample_host (analyzeDocument sample_fromText specimen_text)) =
       ''documentNumber'' # middle @ [''mrzChecksum'', ''documentNumberMatch'', ''nameMatch'']
     \<and> set middle \<subseteq> {''expiryDate'', ''dateOfBirth'', ''name'', ''nationality''}"
proof -
  let ?doc = "analyzeDocument sample_fromText specimen_text"
  let ?m = "parseTD3 td3_line1 td3_line2"
  have m: "mrzData ?doc = Some ?m"
    by (rule specimen_mrzData)
  have a: "f_value (documentNumber ?doc) \<noteq> []"
    by (simp add: analyzeDocument_fields [OF m] td3_line2_documentNumber)
  have b: "f_value (mrz_documentNumber ?m) \<noteq> []"
    by (simp add: td3_line2_documentNumber)
  have c: "f_value (lastName ?doc) \<noteq> []"
    by (simp add: analyzeDocument_fields [OF m] specimen_names)
  have d: "f_value (mrz_lastName ?m) \<noteq> []"
    by (simp add: specimen_names)
  show ?thesis
    by (rule validation_order [OF m a b c d])
qed

section \<open>The eligibility result\<close>

lemma includes_str_append: "includes_str (pre @ t @ post) t"
proof (induction pre)
  case Nil
  have "starts_with (t @ post) t" by (induction t) auto
  then show ?case by (cases "t @ post") (auto simp: starts_with.simps(1))
next
  case (Cons a pre)
  then show ?case by simp
qed

lemma join_member:
  "x \<in> set xs \<Longrightarrow> \<exists>pre post. join sep xs = pre @ x @ post"
proof (induction sep xs rule: join.induct)
  case (1 sep)
  then show ?case by simp
next
  case (2 sep y)
  then have "join sep [y] = [] @ x @ []" by simp
  then show ?case by blast
next
  case (3 sep y z zs)
  show ?case
  proof (cases "x = y")
    case True
    then have "join sep (y # z # zs) = [] @ x @ (sep @ join sep (z # zs))" by simp
    then show ?thesis by blast
  next
    case False
    with 3 obtain pre post where "join sep (z # zs) = pre @ x @ post" by auto
    then have "join sep (y # z # zs) = (y @ sep @ pre) @ x @ post" by simp
    then show ?thesis by blast
  qed
qed

lemma join_includes:
  assumes "x = t @ rest" "x \<in> set xs"
  shows "includes_str (join sep xs) t"
proof -
  from join_member [OF assms(2)] obtain pre post where "join sep xs = pre @ x @ post" by blast
  then have "join sep xs = pre @ t @ (rest @ post)" by (simp add: assms(1))
  then show ?thesis by (metis includes_str_append)
qed

lemma blocked_issue:
  assumes "f_value (nationality doc) = ''XXX''" "blockedNationalities policy = Some [''XXX'']"
  shows "''Nationality XXX is not eligible'' @ '' for '' @ visaType applicant
           \<in> set (eligibilityIssues H doc applicant policy)"
  using assms by (simp add: eligibilityIssues_def blockedIssues_def not_eligible_for_def)

text \<open>
  Claim C6. The result of \<open>checkEligibility\<close> is eligible exactly when the list of issues is
  empty; its reason is the issues joined with \<open>; \<close> when it is not eligible and the fixed
  message when it is; its confidence is 95 when eligible and 85 when not, however many
  issues there are. With the policy of six months that blocks \<open>XXX\<close>, a document of
  nationality \<open>XXX\<close> and an expiry date twelve months ahead, the result is not eligible and
  its reason contains \<open>Nationality XXX is not eligible\<close>.
\<close>

theorem checkEligibility_result:
  "eligible (checkEligibility H doc applicant policy)
     = (eligibilityIssues H doc applicant policy = [])
   \<and> reason (checkEligibility H doc applicant policy)
     = (if eligibilityIssues H doc applicant policy = [] then ''All eligibility requirements met''
        else join ''; '' (eligibilityIssues H doc applicant policy))
   \<and> e_confidence (checkEligibility H doc applicant policy)
     = (if eligibilityIssues H doc applicant policy = [] then 95 else 85)
   \<and> (minPassportValidity policy = 6 \<and> blockedNationalities policy = Some [''XXX'']
      \<and> f_value (nationality doc) = ''XXX''
      \<and> parseISO H (f_value (expiryDate doc)) = Inr expiry
      \<and> differenceInMonths H expiry (now H) = Some 12
      \<longrightarrow> \<not> eligible (checkEligibility H doc applicant policy)
          \<and> includes_str (reason (checkEligibility H doc applicant policy))
                ''Nationality XXX is not eligible'')"
proof -
  have general:
    "eligible (checkEligibility H doc applicant policy)
       = (eligibilityIssues H doc applicant policy = [])"
    "reason (checkEligibility H doc applicant policy)
       = (if eligibilityIssues H doc applicant policy = [] then ''All eligibility requirements met''
          else join ''; '' (eligibilityIssues H doc applicant policy))"
    "e_confidence (checkEligibility H doc applicant policy)
       = (if eligibilityIssues H doc applicant policy = [] then 95 else 85)"
    by (simp_all add: checkEligibility_def Let_def)
  have scenario:
    "\<not> eligible (checkEligibility H doc applicant policy)
     \<and> includes_str (reason (checkEligibility H doc applicant policy))
          ''Nationality XXX is not eligible''"
    if a: "blockedNationalities policy = Some [''XXX'']" "f_value (nationality doc) = ''XXX''"
  proof -
    let ?x = "''Nationality XXX is not eligible'' @ '' for '' @ visaType applicant"
    have mem: "?x \<in> set (eligibilityIssues H doc applicant policy)"
      using a by (intro blocked_issue)
    then have ne: "eligibilityIssues H doc applicant policy \<noteq> []" by auto
    have "includes_str (join ''; '' (eligibilityIssues H doc applicant policy))
            ''Nationality XXX is not eligible''"
      using mem by (intro join_includes [where rest = "'' for '' @ visaType applicant"]) simp_all
    with ne show ?thesis by (simp add: general)
  qed
  from general scenario show ?thesis by blast
qed

theorem checkEligibility_result_witness:
  "\<not> eligible (checkEligibility sample_host (sample_document ''XXX'' ''2027-11-15'' ''1974-08-12'')
        sample_applicant (sample_policy (Some [''XXX'']) None None))
   \<and> reason (checkEligibility sample_host (sample_document ''XXX'' ''2027-11-15'' ''1974-08-12'')
        sample_applicant (sample_policy (Some [''XXX'']) None None))
      = ''Nationality XXX is not eligible for tourist''
   \<and> e_confidence (checkEligibility sample_host (sample_document ''XXX'' ''2027-11-15'' ''1974-08-12'')
        sample_applicant (sample_policy (Some [''XXX'']) None None)) = 85"
proof -
  let ?doc = "sample_document ''XXX'' ''2027-11-15'' ''1974-08-12''"
  let ?policy = "sample_policy (Some [''XXX'']) None None"
  have issues: "eligibilityIssues sample_host ?doc sample_applicant ?policy
                  = [''Nationality XXX is not eligible for tourist'']"
    by (simp add: eligibilityIssues_def validityIssues_def allowedIssues_def blockedIssues_def
        ageIssues_def passportIssues_def not_eligible_for_def sample_document_def
        sample_policy_def sample_applicant_def sample_host_def sample_parseISO_def num_lt_def
        num_gt_def truthy_num_def)
  have hyp: "minPassportValidity ?policy = 6 \<and> blockedNationalities ?policy = Some [''XXX'']
      \<and> f_value (nationality ?doc) = ''XXX''
      \<and> parseISO sample_host (f_value (expiryDate ?doc)) = Inr (Midnight 2027 11 15)
      \<and> differenceInMonths sample_host (Midnight 2027 11 15) (now sample_host) = Some 12"
    by (simp add: sample_policy_def sample_document_def sample_host_def sample_parseISO_def)
  from checkEligibility_result [of sample_host ?doc sample_applicant ?policy "Midnight 2027 11 15"]
    hyp issues
  show ?thesis by simp
qed

section \<open>The recommendations\<close>

lemma address_line_not_other:
  "''- Address '' @ x \<notin> set other_branch_lines"
  by (simp add: other_branch_lines_def)

text \<open>
  Claim C7. When at least one validation check has the status fail,
  \<open>generateRecommendations\<close> returns the line
  \<open>REJECT: Critical validation failures detected\<close> followed by one line
  \<open>- Address <field>: <message>\<close> for each failing check, in their order. None of the
  fixed lines of the later branches is among them, and the result is the same whatever
  the eligibility result and the overall confidence are.
\<close>

theorem recommendations_reject_first:
  assumes "\<exists>c\<in>set validationChecks. status c = Fail"
  shows "generateRecommendations validationChecks eligibility overallConfidence =
           ''REJECT: Critical validation failures detected''
             # map (\<lambda>f. ''- Address '' @ field f @ '': '' @ message f)
                 (filter (\<lambda>c. status c = Fail) validationChecks)
         \<and> set (generateRecommendations validationChecks eligibility overallConfidence)
             \<inter> set other_branch_lines = {}
         \<and> generateRecommendations validationChecks eligibility overallConfidence =
             generateRecommendations validationChecks eligibility' overallConfidence'"
proof -
  from assms have nonempty: "filter (\<lambda>c. status c = Fail) validationChecks \<noteq> []"
    by (simp add: filter_empty_conv)
  then have eq: "\<And>e k. generateRecommendations validationChecks e k =
           ''REJECT: Critical validation failures detected''
             # map (\<lambda>f. ''- Address '' @ field f @ '': '' @ message f)
                 (filter (\<lambda>c. status c = Fail) validationChecks)"
    by (simp add: generateRecommendations_def Let_def)
  have header: "''REJECT: Critical validation failures detected'' \<notin> set other_branch_lines"
    by (simp add: other_branch_lines_def)
  have "set (''REJECT: Critical validation failures detected''
             # map (\<lambda>f. ''- Address '' @ field f @ '': '' @ message f)
                 (filter (\<lambda>c. status c = Fail) validationChecks))
        \<inter> set other_branch_lines = {}"
    using header address_line_not_other by auto
  with eq show ?thesis by simp
qed

theorem recommendations_reject_first_witness:
  "generateRecommendations
     [\<lparr>field = ''documentNumber'', status = Pass, message = ''Document number format valid'',
        confidence = 95\<rparr>,
      \<lparr>field = ''expiryDate'', status = Fail, message = ''Document has expired'',
        confidence = 95\<rparr>]
     \<lparr>eligible = True, reason = ''All eligibility requirements met'', e_confidence = 95\<rparr> 95
   = [''REJECT: Critical validation failures detected'',
      ''- Address expiryDate: Document has expired'']"
  using recommendations_reject_first
    [of "[\<lparr>field = ''documentNumber'', status = Pass,
            message = ''Document number format valid'', confidence = 95\<rparr>,
          \<lparr>field = ''expiryDate'', status = Fail, message = ''Document has expired'',
            confidence = 95\<rparr>]"
        "\<lparr>eligible = True, reason = ''All eligibility requirements met'', e_confidence = 95\<rparr>"
        95]
  by simp

section \<open>The age bounds\<close>

text \<open>
  Claim C9 as the specification states it fails for a bound of 0: the source tests
  \<open>policy.maxAge && age > policy.maxAge\<close>, and the number 0 is falsy. The holder of the
  sample is 52, the policy has the upper bound 0, and no issue is raised.
\<close>

theorem zero_age_bound_counterexample:
  "maxAge (sample_policy None None (Some 0)) = Some 0
   \<and> parseISO sample_host ''1974-08-12'' = Inr (Midnight 1974 8 12)
   \<and> differenceInYears sample_host (now sample_host) (Midnight 1974 8 12) = Some 52
   \<and> eligibilityIssues sample_host (sample_document ''UTO'' ''2027-11-15'' ''1974-08-12'')
        sample_applicant (sample_policy None None (Some 0)) = []"
  by (simp add: eligibilityIssues_def validityIssues_def allowedIssues_def blockedIssues_def
      ageIssues_def passportIssues_def sample_document_def sample_policy_def sample_applicant_def
      sample_host_def sample_parseISO_def num_lt_def num_gt_def truthy_num_def)

lemma age_issues_of_bounds:
  assumes "f_value (dateOfBirth doc) \<noteq> []"
    and "parseISO H (f_value (dateOfBirth doc)) = Inr dob"
    and "differenceInYears H (now H) dob = Some age"
  shows "ageIssues H doc policy =
           (case minAge policy of
              None \<Rightarrow> []
            | Some lo \<Rightarrow>
                if lo \<noteq> 0 \<and> age < lo
                then [''Applicant must be at least '' @ show_num (minAge policy) @ '' years old'']
                else [])
           @ (case maxAge policy of
                None \<Rightarrow> []
              | Some hi \<Rightarrow>
                  if hi \<noteq> 0 \<and> age > hi
                  then [''Applicant must be under '' @ show_num (maxAge policy) @ '' years old'']
                  else [])"
  using assms
  by (auto simp: ageIssues_def truthy_num_def num_lt_def num_gt_def split: option.splits)

lemma age_issues_among_all:
  "set (ageIssues H doc policy) \<subseteq> set (eligibilityIssues H doc applicant policy)"
  by (auto simp: eligibilityIssues_def)

text \<open>
  Claim C9, as amended. When \<open>parseISO\<close> returns a date for the date of birth of the
  document and the age computed from it is a number, the age is compared with
  \<open>policy.minAge\<close> and with \<open>policy.maxAge\<close>, each when it is configured and is not 0. The
  issues of the age are then the issue of the lower bound, \<open>Applicant must be at least \<dots>
  years old\<close>, when the age is below it, followed by the issue of the upper bound,
  \<open>Applicant must be under \<dots> years old\<close>, when the age is above it, and nothing else; the
  text between is the bound in decimal digits when the bound is a safe integer. The issues
  of the age are among the issues of the result.
\<close>

theorem age_bounds:
  assumes "f_value (dateOfBirth doc) \<noteq> []"
    and "parseISO H (f_value (dateOfBirth doc)) = Inr dob"
    and "differenceInYears H (now H) dob = Some age"
  shows "\<exists>lo_text hi_text.
           ageIssues H doc policy =
             (case minAge policy of
                None \<Rightarrow> []
              | Some lo \<Rightarrow>
                  if lo \<noteq> 0 \<and> age < lo
                  then [''Applicant must be at least '' @ lo_text @ '' years old''] else [])
             @ (case maxAge policy of
                  None \<Rightarrow> []
                | Some hi \<Rightarrow>
                    if hi \<noteq> 0 \<and> age > hi
                    then [''Applicant must be under '' @ hi_text @ '' years old''] else [])
           \<and> (\<forall>lo. minAge policy = Some lo \<and> \<bar>lo\<bar> \<le> max_safe_integer \<longrightarrow>
                  lo_text = show_int lo)
           \<and> (\<forall>hi. maxAge policy = Some hi \<and> \<bar>hi\<bar> \<le> max_safe_integer \<longrightarrow>
                  hi_text = show_int hi)
           \<and> set (ageIssues H doc policy) \<subseteq> set (eligibilityIssues H doc applicant policy)"
proof (intro exI conjI)
  show "ageIssues H doc policy =
          (case minAge policy of
             None \<Rightarrow> []
           | Some lo \<Rightarrow>
               if lo \<noteq> 0 \<and> age < lo
               then [''Applicant must be at least '' @ show_num (minAge policy) @ '' years old'']
               else [])
          @ (case maxAge policy of
               None \<Rightarrow> []
             | Some hi \<Rightarrow>
                 if hi \<noteq> 0 \<and> age > hi
                 then [''Applicant must be under '' @ show_num (maxAge policy) @ '' years old'']
                 else [])"
    by (rule age_issues_of_bounds [OF assms])
  show "\<forall>lo. minAge policy = Some lo \<and> \<bar>lo\<bar> \<le> max_safe_integer \<longrightarrow>
          show_num (minAge policy) = show_int lo"
    by (simp add: show_num_def)
  show "\<forall>hi. maxAge policy = Some hi \<and> \<bar>hi\<bar> \<le> max_safe_integer \<longrightarrow>
          show_num (maxAge policy) = show_int hi"
    by (simp add: show_num_def)
  show "set (ageIssues H doc policy) \<subseteq> set (eligibilityIssues H doc applicant policy)"
    by (rule age_issues_among_all)
qed

theorem age_bounds_witness:
  "ageIssues sample_host (sample_document ''UTO'' ''2027-11-15'' ''1974-08-12'')
     (sample_policy None (Some 60) (Some 50)) =
     [''Applicant must be at least 60 years old'', ''Applicant must be under 50 years old'']"
proof -
  let ?doc = "sample_document ''UTO'' ''2027-11-15'' ''1974-08-12''"
  let ?policy = "sample_policy None (Some 60) (Some 50)"
  have a: "f_value (dateOfBirth ?doc) \<noteq> []"
    by (simp add: sample_document_def)
  have b: "parseISO sample_host (f_value (dateOfBirth ?doc)) = Inr (Midnight 1974 8 12)"
    by (simp add: sample_document_def sample_host_def sample_parseISO_def)
  have c: "differenceInYears sample_host (now sample_host) (Midnight 1974 8 12) = Some 52"
    by (simp add: sample_host_def)
  have lo: "minAge ?policy = Some 60 \<and> \<bar>60\<bar> \<le> max_safe_integer"
    and hi: "maxAge ?policy = Some 50 \<and> \<bar>50\<bar> \<le> max_safe_integer"
    by (simp_all add: sample_policy_def max_safe_integer_def)
  have d: "show_int 60 = ''60''" "show_int 50 = ''50''"
    by (simp_all add: show_int_def show_nat.simps)
  from age_bounds [OF a b c, where policy = "?policy" and applicant = sample_applicant]
  obtain lo_text hi_text where
    issues: "ageIssues sample_host ?doc ?policy =
       (case minAge ?policy of
          None \<Rightarrow> []
        | Some lo \<Rightarrow>
            if lo \<noteq> 0 \<and> 52 < lo
            then [''Applicant must be at least '' @ lo_text @ '' years old''] else [])
       @ (case maxAge ?policy of
            None \<Rightarrow> []
          | Some hi \<Rightarrow>
              if hi \<noteq> 0 \<and> 52 > hi
              then [''Applicant must be under '' @ hi_text @ '' years old''] else [])"
    and lo_digits: "\<forall>lo. minAge ?policy = Some lo \<and> \<bar>lo\<bar> \<le> max_safe_integer \<longrightarrow>
                      lo_text = show_int lo"
    and hi_digits: "\<forall>hi. maxAge ?policy = Some hi \<and> \<bar>hi\<bar> \<le> max_safe_integer \<longrightarrow>
                      hi_text = show_int hi"
    by (elim exE conjE)
  from lo lo_digits have "lo_text = show_int 60" by blast
  then have lo_text: "lo_text = ''60''" by (simp only: d)
  from hi hi_digits have "hi_text = show_int 50" by blast
  then have hi_text: "hi_text = ''50''" by (simp only: d)
  from lo have lo1: "minAge ?policy = Some 60" by simp
  from hi have hi1: "maxAge ?policy = Some 50" by simp
  show ?thesis
    unfolding issues lo1 hi1 lo_text hi_text by simp
qed

section \<open>The merge with the MRZ record\<close>

lemma documentNumberMatch_status:
  assumes "mrzData doc = Some m" "documentNumber doc = mrz_documentNumber m"
    and "c \<in> set (validateMRZConsistency H doc)" "field c = ''documentNumberMatch''"
  shows "status c = Pass"
  using assms by (auto simp: validateMRZConsistency_def Let_def split: if_splits)

lemma documentNumberMatch_of_validateDocument:
  assumes "c \<in> set (validateDocument H doc)" "field c = ''documentNumberMatch''"
  shows "c \<in> set (validateMRZConsistency H doc)"
proof -
  from assms(1) consider "c \<in> set (documentNumberChecks doc)" | "c \<in> set (expiryDateChecks H doc)"
    | "c \<in> set (dateOfBirthChecks H doc)" | "c \<in> set (nameChecks doc)"
    | "c \<in> set (nationalityChecks doc)" | "c \<in> set (validateMRZConsistency H doc)"
    by (auto simp: validateDocument_def split: option.splits)
  then show ?thesis
    using assms(2)
    by cases (auto dest: field_documentNumberChecks field_expiryDateChecks
        field_dateOfBirthChecks field_nameChecks field_nationalityChecks)
qed

text \<open>
  Claim C10. In a document that \<open>analyzeDocument\<close> builds with \<open>mrzData\<close> present, every
  field of the form \<open>mrzData?.f || \<dots>\<close> is the field of the MRZ record, also when its value
  is the empty string. The document number of the document is then the one of the MRZ
  record, and every \<open>documentNumberMatch\<close> check that \<open>validateMRZConsistency\<close> or
  \<open>validateDocument\<close> emits for the document has the status pass.
\<close>

theorem merged_fields_are_mrz_fields:
  assumes "mrzData (analyzeDocument fromText ocrText) = Some m"
  shows "documentType (analyzeDocument fromText ocrText) = mrz_documentType m
       \<and> documentNumber (analyzeDocument fromText ocrText) = mrz_documentNumber m
       \<and> issuingCountry (analyzeDocument fromText ocrText) = mrz_issuingCountry m
       \<and> firstName (analyzeDocument fromText ocrText) = mrz_firstName m
       \<and> lastName (analyzeDocument fromText ocrText) = mrz_lastName m
       \<and> dateOfBirth (analyzeDocument fromText ocrText) = mrz_dateOfBirth m
       \<and> nationality (analyzeDocument fromText ocrText) = mrz_nationality m
       \<and> sex (analyzeDocument fromText ocrText) = mrz_sex m
       \<and> expiryDate (analyzeDocument fromText ocrText) = mrz_expiryDate m
       \<and> (\<forall>c\<in>set (validateMRZConsistency H (analyzeDocument fromText ocrText)).
            field c = ''documentNumberMatch'' \<longrightarrow> status c = Pass)
       \<and> (\<forall>c\<in>set (validateDocument H (analyzeDocument fromText ocrText)).
            field c = ''documentNumberMatch'' \<longrightarrow> status c = Pass)"
proof -
  note fields = analyzeDocument_fields [OF assms]
  have consistency: "status c = Pass"
    if "c \<in> set (validateMRZConsistency H (analyzeDocument fromText ocrText))"
      "field c = ''documentNumberMatch''" for c
    using documentNumberMatch_status [OF assms fields(2)] that by blast
  have whole: "status c = Pass"
    if "c \<in> set (validateDocument H (analyzeDocument fromText ocrText))"
      "field c = ''documentNumberMatch''" for c
    using documentNumberMatch_of_validateDocument [OF that] consistency that(2) by blast
  from fields consistency whole show ?thesis by blast
qed

theorem merged_fields_are_mrz_fields_witness:
  "t_firstName (sample_fromText sample_text) = \<lparr>f_value = ''ANNA'', f_confidence = 75\<rparr>
   \<and> firstName (analyzeDocument sample_fromText sample_text) = \<lparr>f_value = [], f_confidence = 95\<rparr>
   \<and> (\<exists>c\<in>set (validateMRZConsistency sample_host (analyzeDocument sample_fromText sample_text)).
         field c = ''documentNumberMatch'' \<and> status c = Pass)"
proof -
  let ?doc = "analyzeDocument sample_fromText sample_text"
  let ?m = "parseTD3 td3_line1_surname_only td3_line2"
  let ?c = "\<lparr>field = ''documentNumberMatch'', status = Pass,
             message = ''Document number matches MRZ'', confidence = 90\<rparr>"
  have m: "mrzData ?doc = Some ?m"
    by (rule sample_mrzData)
  note merged = merged_fields_are_mrz_fields [OF m, of sample_host]
  from merged have number: "documentNumber ?doc = mrz_documentNumber ?m"
    by blast
  have member: "?c \<in> set (validateMRZConsistency sample_host ?doc)"
    by (simp add: validateMRZConsistency_def m number td3_line2_documentNumber)
  from merged have "firstName ?doc = \<lparr>f_value = [], f_confidence = 95\<rparr>"
    by (simp add: surname_only_names)
  moreover have "t_firstName (sample_fromText sample_text) = \<lparr>f_value = ''ANNA'', f_confidence = 75\<rparr>"
    by (simp add: sample_fromText_def)
  moreover from member have "\<exists>c\<in>set (validateMRZConsistency sample_host ?doc).
         field c = ''documentNumberMatch'' \<and> status c = Pass"
    by (intro bexI [of _ ?c]) simp_all
  ultimately show ?thesis by blast
qed

end
